theory Spec2Isabelle
  imports Complex_Main "HOL-Library.Sublist" "HOL-Library.Log_Nat"
begin

section \<open>Strings\<close>

text \<open>
  A Python string is a sequence of code points; the texts modelled here are those whose
  code points lie in 0 to 255 (Latin-1), one \<open>char\<close> each.  \<open>is_space\<close> is
  \<open>str.isspace\<close> on this range: 9 to 13, 28 to 32, 133 and 160.  \<open>lower\<close> is
  \<open>str.lower\<close>, which moves the letters A to Z and the accented capitals 192 to 222
  (215 is the multiplication sign) up by 32.  \<open>str.upper\<close> leaves the range for three
  characters (181 becomes 924, 255 becomes 376, and 223, the sharp s, becomes the two
  letters SS), so \<open>upper\<close> returns the code points of the result.  \<open>strip\<close> is
  \<open>str.strip()\<close>.  \<open>s.startswith(p)\<close> is \<open>prefix p s\<close> and \<open>k in s\<close> is
  \<open>sublist k s\<close>; \<open>any(k in s for k in ks)\<close> is \<open>any_in ks s\<close>.
\<close>

definition is_space :: "char \<Rightarrow> bool" where
  "is_space c =
     (let n = (of_char c :: nat)
      in (9 \<le> n \<and> n \<le> 13) \<or> (28 \<le> n \<and> n \<le> 32) \<or> n = 133 \<or> n = 160)"

definition upper_points :: "char \<Rightarrow> nat list" where
  "upper_points c =
     (let n = (of_char c :: nat)
      in if (97 \<le> n \<and> n \<le> 122) \<or> (224 \<le> n \<and> n \<le> 254 \<and> n \<noteq> 247) then [n - 32]
         else if n = 181 then [924]
         else if n = 223 then [83, 83]
         else if n = 255 then [376]
         else [n])"

definition upper :: "string \<Rightarrow> nat list" where
  "upper s = concat (map upper_points s)"

definition code_points :: "string \<Rightarrow> nat list" where
  "code_points s = map of_char s"

definition to_lower :: "char \<Rightarrow> char" where
  "to_lower c =
     (let n = (of_char c :: nat)
      in if (65 \<le> n \<and> n \<le> 90) \<or> (192 \<le> n \<and> n \<le> 222 \<and> n \<noteq> 215) then char_of (n + 32)
         else c)"

definition lower :: "string \<Rightarrow> string" where
  "lower s = map to_lower s"

definition lstrip :: "string \<Rightarrow> string" where
  "lstrip s = dropWhile is_space s"

definition rstrip :: "string \<Rightarrow> string" where
  "rstrip s = rev (dropWhile is_space (rev s))"

definition strip :: "string \<Rightarrow> string" where
  "strip s = rstrip (lstrip s)"

definition any_in :: "string list \<Rightarrow> string \<Rightarrow> bool" where
  "any_in ks s = list_ex (\<lambda>k. sublist k s) ks"

definition replace_char :: "char \<Rightarrow> char \<Rightarrow> string \<Rightarrow> string" where
  "replace_char a b s = map (\<lambda>c. if c = a then b else c) s"

section \<open>Dynamic values, exceptions and collaborator calls\<close>

text \<open>
  Values whose shape the code does not fix (rows, parsed AI answers, payloads) are JSON
  values; a dictionary is the list of its items in insertion order.  A Python number,
  \<open>int\<close> or \<open>float\<close>, is the real number it denotes (\<open>JNum\<close>).  The amounts of
  the ledger are integers (column \<open>amount INT\<close>), so the sums and differences of amounts
  are those of Python's \<open>int\<close> and are exact.  \<open>truthy\<close> is the truth value Python
  gives a value in \<open>if v:\<close>.
\<close>

datatype json =
    JNull
  | JBool bool
  | JNum real
  | JStr string
  | JList "json list"
  | JDict "(string \<times> json) list"

fun truthy :: "json \<Rightarrow> bool" where
  "truthy JNull = False"
| "truthy (JBool b) = b"
| "truthy (JNum r) = (r \<noteq> 0)"
| "truthy (JStr s) = (s \<noteq> [])"
| "truthy (JList xs) = (xs \<noteq> [])"
| "truthy (JDict kvs) = (kvs \<noteq> [])"

text \<open>
  Where the code divides, the result is a \<open>float\<close>, an IEEE 754 double, and so is
  every result computed from it.  \<open>round_double x\<close> is the double nearest to \<open>x\<close>: with
  \<open>e\<close> the exponent of \<open>x\<close> (\<open>2 ^ e \<le> \<bar>x\<bar> < 2 ^ (e + 1)\<close>), \<open>x\<close> is rounded to a
  multiple of \<open>2 ^ (e - 52)\<close>, a tie going to the even multiple.  This is the result of
  \<open>a / b\<close> on two \<open>int\<close>s and of \<open>-\<close>, \<open>/\<close> and \<open>*\<close> on floats, as long as it
  lies in the normal range of a double; quotients, differences and percentages of 32-bit
  amounts do.  Infinities and subnormal numbers are outside this model.
\<close>

definition exponent_of :: "real \<Rightarrow> int" where
  "exponent_of x =
     (let a = \<bar>x\<bar> in if 1 \<le> a then bitlen \<lfloor>a\<rfloor> - 1 else - bitlen (\<lceil>1 / a\<rceil> - 1))"

definition round_half_even :: "real \<Rightarrow> int" where
  "round_half_even x =
     (let f = \<lfloor>x\<rfloor>; d = x - of_int f
      in if d < 1 / 2 then f else if d > 1 / 2 then f + 1 else if even f then f else f + 1)"

definition pow2 :: "int \<Rightarrow> real" where
  "pow2 e = (if 0 \<le> e then 2 ^ nat e else 1 / 2 ^ nat (- e))"

definition round_double :: "real \<Rightarrow> real" where
  "round_double x =
     (if x = 0 then 0
      else let ulp = pow2 (exponent_of x - 52) in of_int (round_half_even (x / ulp)) * ulp)"

text \<open>\<open>d.get(k, default)\<close> on a dictionary.\<close>

definition dict_get :: "(string \<times> json) list \<Rightarrow> string \<Rightarrow> json \<Rightarrow> json" where
  "dict_get d k dflt = (case map_of d k of None \<Rightarrow> dflt | Some v \<Rightarrow> v)"

datatype exn =
    KeyError string
  | TypeError
  | ValueError
  | AttributeError
  | SQLAlchemyError
  | RuntimeError

text \<open>
  Calls that leave the process (a database statement, an AI Gateway request, a sub-agent
  invoked by the orchestrator) are recorded, in order, as events.  A computation is its
  outcome, \<open>Inl\<close> an exception that escaped and \<open>Inr\<close> the returned value, with the
  events it caused.
\<close>

datatype event =
    DbAlertConfigs string
  | DbUserBalance string
  | AiAnalyzeData string
  | StageUnderstandQuery
  | StageGetUserPreferences
  | StageGenerateSqlQuery
  | StageExecuteQuery
  | StageGenerateInsights
  | StageCreateVisualizations
  | StageLogInteraction

type_synonym 'a comp = "(exn + 'a) \<times> event list"

definition ret :: "'a \<Rightarrow> 'a comp" where
  "ret x = (Inr x, [])"

definition throw :: "exn \<Rightarrow> 'a comp" where
  "throw e = (Inl e, [])"

definition extern :: "event \<Rightarrow> exn + 'a \<Rightarrow> 'a comp" where
  "extern ev outcome = (outcome, [ev])"

definition and_then :: "'a comp \<Rightarrow> ('a \<Rightarrow> 'b comp) \<Rightarrow> 'b comp" where
  "and_then m f =
     (case m of
        (Inl e, evs) \<Rightarrow> (Inl e, evs)
      | (Inr x, evs) \<Rightarrow> (case f x of (r, evs') \<Rightarrow> (r, evs @ evs')))"

definition try_except :: "'a comp \<Rightarrow> (exn \<Rightarrow> 'a comp) \<Rightarrow> 'a comp" where
  "try_except m handler =
     (case m of
        (Inl e, evs) \<Rightarrow> (case handler e of (r, evs') \<Rightarrow> (r, evs @ evs'))
      | (Inr x, evs) \<Rightarrow> (Inr x, evs))"

text \<open>A \<open>for\<close> loop that appends to a list and stops at the first exception.\<close>

fun for_each :: "('a \<Rightarrow> 'b list comp) \<Rightarrow> 'a list \<Rightarrow> 'b list comp" where
  "for_each f [] = ret []"
| "for_each f (x # xs) = and_then (f x) (\<lambda>ys. and_then (for_each f xs) (\<lambda>zs. ret (ys @ zs)))"

section \<open>Query understanding\<close>

record query_intent =
  original_query :: string
  analysis_type :: json
  time_period :: json
  categories :: json
  needs_visualization :: json
  priority :: json
  confidence :: json

definition time_patterns :: "(string \<times> int) list" where
  "time_patterns =
     [(''today'', 0), (''yesterday'', 1), (''this week'', 7), (''last week'', 14),
      (''this month'', 30), (''last month'', 60), (''this year'', 365), (''last year'', 730)]"

definition category_keywords :: "(string \<times> string list) list" where
  "category_keywords =
     [(''food'', [''food'', ''restaurant'', ''dining'', ''coffee'', ''lunch'', ''dinner'', ''grocery'']),
      (''entertainment'', [''movie'', ''game'', ''entertainment'', ''netflix'', ''spotify'', ''subscription'']),
      (''transportation'', [''gas'', ''fuel'', ''uber'', ''lyft'', ''taxi'', ''transport'', ''parking'']),
      (''shopping'', [''amazon'', ''store'', ''shopping'', ''retail'', ''clothes'', ''clothing'']),
      (''utilities'', [''electric'', ''water'', ''internet'', ''phone'', ''utility'', ''bill'']),
      (''healthcare'', [''doctor'', ''pharmacy'', ''medical'', ''health'', ''hospital'']),
      (''education'', [''school'', ''university'', ''course'', ''book'', ''education'', ''learning''])]"

text \<open>
  \<open>ai_understanding\<close> is what \<open>_ai_understand_query\<close> returned: \<open>None\<close> when the AI
  Gateway gave no usable answer, else the items of the parsed dictionary.
  \<open>ai_field\<close> is the test \<open>ai_understanding and k in ai_understanding\<close> followed by
  the lookup.
\<close>

definition ai_field :: "(string \<times> json) list option \<Rightarrow> string \<Rightarrow> json option" where
  "ai_field ai_understanding k =
     (case ai_understanding of
        None \<Rightarrow> None
      | Some d \<Rightarrow> if d \<noteq> [] then map_of d k else None)"

definition determine_analysis_type :: "string \<Rightarrow> (string \<times> json) list option \<Rightarrow> json" where
  "determine_analysis_type query ai_understanding =
     (case ai_field ai_understanding ''analysis_type'' of
        Some v \<Rightarrow> v
      | None \<Rightarrow>
          if any_in [''trend'', ''over time'', ''change'', ''increase'', ''decrease''] query
            then JStr ''spending_trends''
          else if any_in [''category'', ''breakdown'', ''spend on'', ''where''] query
            then JStr ''category_analysis''
          else if any_in [''improve'', ''better'', ''worse'', ''progress'', ''doing''] query
            then JStr ''improvement''
          else JStr ''general'')"

fun first_period :: "(string \<times> int) list \<Rightarrow> string \<Rightarrow> string" where
  "first_period [] query = ''this_month''"
| "first_period ((period, days) # rest) query =
     (if sublist period query then replace_char CHR '' '' CHR ''_'' period
      else first_period rest query)"

definition extract_time_period :: "string \<Rightarrow> (string \<times> json) list option \<Rightarrow> json" where
  "extract_time_period query ai_understanding =
     (case ai_field ai_understanding ''time_period'' of
        Some v \<Rightarrow> v
      | None \<Rightarrow> JStr (first_period time_patterns query))"

definition extract_categories :: "string \<Rightarrow> (string \<times> json) list option \<Rightarrow> json" where
  "extract_categories query ai_understanding =
     (case ai_field ai_understanding ''categories'' of
        Some v \<Rightarrow> v
      | None \<Rightarrow>
          JList (map (\<lambda>(category, keywords). JStr category)
                   (filter (\<lambda>(category, keywords). any_in keywords query) category_keywords)))"

definition needs_visualization_of :: "string \<Rightarrow> (string \<times> json) list option \<Rightarrow> json" where
  "needs_visualization_of query ai_understanding =
     (case ai_field ai_understanding ''needs_visualization'' of
        Some v \<Rightarrow> v
      | None \<Rightarrow> JBool (any_in [''chart'', ''graph'', ''visual'', ''show'', ''plot'', ''display''] query))"

definition determine_priority :: "string \<Rightarrow> (string \<times> json) list option \<Rightarrow> json" where
  "determine_priority query ai_understanding =
     (case ai_field ai_understanding ''priority'' of
        Some v \<Rightarrow> v
      | None \<Rightarrow>
          if any_in [''urgent'', ''important'', ''asap'', ''quickly'', ''immediately''] query
            then JNum 5
          else JNum 3)"

text \<open>
  \<open>understand_query\<close>.  No step of the body can raise on a string, so the handler
  that returns \<open>None\<close> has no branch here.
\<close>

definition understand_query :: "string \<Rightarrow> (string \<times> json) list option \<Rightarrow> query_intent option" where
  "understand_query query ai_understanding =
     (let query_lower = strip (lower query) in
      Some \<lparr> original_query = query,
             analysis_type = determine_analysis_type query_lower ai_understanding,
             time_period = extract_time_period query_lower ai_understanding,
             categories = extract_categories query_lower ai_understanding,
             needs_visualization = needs_visualization_of query_lower ai_understanding,
             priority = determine_priority query_lower ai_understanding,
             confidence =
               (case ai_understanding of
                  None \<Rightarrow> JNum 0.7
                | Some d \<Rightarrow> if d \<noteq> [] then dict_get d ''confidence'' (JNum 0.8) else JNum 0.7) \<rparr>)"

section \<open>Data analyst: SQL validation\<close>

definition dangerous_keywords :: "string list" where
  "dangerous_keywords = [''DROP'', ''DELETE'', ''UPDATE'', ''INSERT'', ''ALTER'']"

text \<open>
  \<open>_validate_sql_query\<close>.  The username only feeds a warning that is logged; the
  result does not depend on it.  \<open>None\<close> is Python's \<open>None\<close>.
\<close>

definition validate_sql_query :: "string \<Rightarrow> string \<Rightarrow> string option" where
  "validate_sql_query sql_query username =
     (let q = strip sql_query in
      if \<not> prefix (code_points ''SELECT'') (upper q) then None
      else if list_ex (\<lambda>keyword. sublist (code_points keyword) (upper q)) dangerous_keywords then None
      else Some q)"

text \<open>
  The words of the specification, stated without \<open>upper\<close>: two characters are the same
  letter up to case when they are equal or are the two cases of one of the letters A to
  Z; a text begins with a word case-insensitively when one of its prefixes matches the
  word letter by letter, and contains it when one of its contiguous pieces does.
\<close>








text \<open>
  \<open>generate_sql_query\<close>: \<open>ai_sql\<close> is what the AI Gateway's SQL generation returned
  for the prompt built from the intent and the preferences.
\<close>

definition generate_sql_query :: "string option \<Rightarrow> string \<Rightarrow> string option" where
  "generate_sql_query ai_sql username =
     (case ai_sql of
        None \<Rightarrow> None
      | Some sql_query \<Rightarrow> if sql_query \<noteq> [] then validate_sql_query sql_query username else None)"

text \<open>
  The \<open>CASE\<close> expression of the canned query of \<open>get_spending_by_category\<close> on the
  ledger column \<open>amount\<close>, an integer.
\<close>

definition sql_category_case :: "int \<Rightarrow> string" where
  "sql_category_case amount =
     (if amount < 50 then ''Small purchases''
      else if amount < 200 then ''Medium purchases''
      else if amount < 500 then ''Large purchases''
      else ''Very large purchases'')"

section \<open>Transactions\<close>

text \<open>
  A transaction is a dictionary; the fields the agents read are \<open>amount\<close>,
  \<open>timestamp\<close> and \<open>description\<close>.  \<open>tx_amount\<close> and \<open>tx_description\<close> are
  \<open>None\<close> when the key is absent.  Time is counted in microseconds on the calendar;
  a \<open>datetime\<close> is naive, or aware with its UTC offset.  A \<open>timestamp\<close> entry is
  absent, \<open>None\<close>, a \<open>datetime\<close> object, or a text; a text is given by what
  \<open>datetime.fromisoformat(text.replace("Z", "+00:00"))\<close> makes of it: \<open>None\<close> when
  it raises \<open>ValueError\<close>, a naive value when the text carries no offset, an aware one
  when it does (a text that ends in \<open>Z\<close> reads as aware with offset 0).
\<close>

datatype datetime = Naive int | Aware int int

datatype ts_field = TsAbsent | TsNull | TsDatetime datetime | TsText "datetime option"

record transaction =
  tx_amount :: "real option"
  tx_timestamp :: ts_field
  tx_description :: "string option"

definition amount_of :: "transaction \<Rightarrow> real" where
  "amount_of t = (case tx_amount t of None \<Rightarrow> 0 | Some a \<Rightarrow> a)"

section \<open>Insight generator\<close>

record insight =
  ins_type :: string
  ins_title :: string
  ins_description :: string
  ins_data :: json
  ins_priority :: int
  ins_visualization_config :: "(string \<times> json) list"

text \<open>
  What the insight generator takes from outside: the description the AI Gateway writes
  for an analysis (\<open>None\<close> when it fails) and Python's fixed-point formatting
  \<open>format(x, '.Nf')\<close>.
\<close>

record insight_env =
  generate_insight_description :: "json \<Rightarrow> string \<Rightarrow> string option"
  format_fixed :: "nat \<Rightarrow> real \<Rightarrow> string"

definition initial_categories :: "(string \<times> real) list" where
  "initial_categories =
     [(''Small purchases (<$50)'', 0),
      (''Medium purchases ($50-$200)'', 0),
      (''Large purchases ($200-$500)'', 0),
      (''Very large purchases (>$500)'', 0)]"

definition amount_category :: "real \<Rightarrow> string" where
  "amount_category amount =
     (if amount < 50 then ''Small purchases (<$50)''
      else if amount < 200 then ''Medium purchases ($50-$200)''
      else if amount < 500 then ''Large purchases ($200-$500)''
      else ''Very large purchases (>$500)'')"

text \<open>\<open>d[k] += amount\<close> on a dictionary that has the key \<open>k\<close>.\<close>

definition dict_add :: "string \<Rightarrow> real \<Rightarrow> (string \<times> real) list \<Rightarrow> (string \<times> real) list" where
  "dict_add k amount d = map (\<lambda>(k', v). if k' = k then (k', v + amount) else (k', v)) d"

fun categorize :: "transaction list \<Rightarrow> (string \<times> real) list \<times> real \<Rightarrow> (string \<times> real) list \<times> real" where
  "categorize [] (cats, total_amount) = (cats, total_amount)"
| "categorize (t # ts) (cats, total_amount) =
     (let amount = amount_of t in
      categorize ts (dict_add (amount_category amount) amount cats, total_amount + amount))"

text \<open>\<open>max(d, key=d.get)\<close>: the first key, in insertion order, whose value is largest.\<close>

fun max_from :: "string \<times> real \<Rightarrow> (string \<times> real) list \<Rightarrow> string \<times> real" where
  "max_from best [] = best"
| "max_from best (kv # rest) = max_from (if snd kv > snd best then kv else best) rest"

definition max_key :: "(string \<times> real) list \<Rightarrow> (string \<times> real) option" where
  "max_key d = (case d of [] \<Rightarrow> None | kv # rest \<Rightarrow> Some (max_from kv rest))"

definition nonempty_or :: "string option \<Rightarrow> string \<Rightarrow> string" where
  "nonempty_or description fallback =
     (case description of None \<Rightarrow> fallback | Some d \<Rightarrow> if d = [] then fallback else d)"

definition analyze_spending_categories :: "insight_env \<Rightarrow> transaction list \<Rightarrow> insight option" where
  "analyze_spending_categories env transactions =
     (if transactions = [] then None
      else
        let (cats, total_amount) = categorize transactions (initial_categories, 0) in
        case max_key cats of
          None \<Rightarrow> None
        | Some (top_category, top_amount) \<Rightarrow>
            let top_percentage =
                  (if total_amount > 0 then round_double (round_double (top_amount / total_amount) * 100)
                   else 0);
                analysis_data = JDict
                  [(''categories'', JDict (map (\<lambda>(k, v). (k, JNum v)) cats)),
                   (''total_amount'', JNum total_amount),
                   (''top_category'', JStr top_category),
                   (''top_percentage'', JNum top_percentage)];
                description = nonempty_or
                  (generate_insight_description env analysis_data ''category_analysis'')
                  (''Your spending is highest in '' @ top_category @ '' at $''
                     @ format_fixed env 2 top_amount @ '' ('' @ format_fixed env 1 top_percentage
                     @ ''% of total spending).'')
            in Some \<lparr> ins_type = ''category_analysis'',
                      ins_title = ''Spending Category Breakdown'',
                      ins_description = description,
                      ins_data = analysis_data,
                      ins_priority = 2,
                      ins_visualization_config =
                        [(''chart_type'', JStr ''pie''), (''data_key'', JStr ''categories'')] \<rparr>)"

text \<open>
  \<open>sum(t.get("amount", 0) for t in ts)\<close>, and \<open>total / len(ts) if ts else 0\<close>: a
  true division of two \<open>int\<close>s, which gives the double nearest to the quotient.
\<close>

definition total_of :: "transaction list \<Rightarrow> real" where
  "total_of ts = sum_list (map amount_of ts)"

definition average_of :: "transaction list \<Rightarrow> real" where
  "average_of ts = (if ts \<noteq> [] then round_double (total_of ts / real (length ts)) else 0)"

definition analyze_improvements :: "insight_env \<Rightarrow> transaction list \<Rightarrow> insight option" where
  "analyze_improvements env transactions =
     (if length transactions < 10 then None
      else
        let mid_point = length transactions div 2;
            recent_transactions = take mid_point transactions;
            older_transactions = drop mid_point transactions;
            recent_total = total_of recent_transactions;
            older_total = total_of older_transactions;
            recent_avg = average_of recent_transactions;
            older_avg = average_of older_transactions;
            improvement_pct =
              (if older_avg > 0
               then round_double (round_double (round_double (older_avg - recent_avg) / older_avg) * 100)
               else 0);
            is_improvement = (improvement_pct > 5);
            trend_direction = (if is_improvement then ''decreased'' else ''increased'');
            analysis_data = JDict
              [(''recent_period'', JDict
                  [(''total'', JNum recent_total), (''average'', JNum recent_avg),
                   (''count'', JNum (real (length recent_transactions)))]),
               (''older_period'', JDict
                  [(''total'', JNum older_total), (''average'', JNum older_avg),
                   (''count'', JNum (real (length older_transactions)))]),
               (''improvement_percentage'', JNum improvement_pct),
               (''is_improvement'', JBool is_improvement),
               (''trend_direction'', JStr trend_direction)];
            description = nonempty_or
              (generate_insight_description env analysis_data ''improvement_analysis'')
              (if is_improvement
               then ''Great news! Your average spending has '' @ trend_direction @ '' by ''
                      @ format_fixed env 1 \<bar>improvement_pct\<bar> @ ''% compared to the previous period.''
               else ''Your average spending has '' @ trend_direction @ '' by ''
                      @ format_fixed env 1 \<bar>improvement_pct\<bar>
                      @ ''% compared to the previous period. Consider reviewing your spending habits.'')
        in Some \<lparr> ins_type = ''improvement_analysis'',
                  ins_title = ''Spending Improvement Analysis'',
                  ins_description = description,
                  ins_data = analysis_data,
                  ins_priority = (if is_improvement then 3 else 2),
                  ins_visualization_config =
                    [(''chart_type'', JStr ''bar''), (''x_axis'', JStr ''period''),
                     (''y_axis'', JStr ''amount'')] \<rparr>)"

section \<open>Alert and notification agent\<close>

text \<open>
  A row of \<open>alert_configurations\<close> is a dictionary; a field is \<open>None\<close> when the key
  is absent, and \<open>config[k]\<close> then raises \<open>KeyError\<close>.
\<close>

record alert_config =
  cfg_id :: "int option"
  cfg_alert_type :: "string option"
  cfg_alert_name :: "string option"
  cfg_threshold_value :: "real option"
  cfg_threshold_period :: "string option"

record alert =
  alert_type :: string
  alert_title :: string
  alert_description :: json
  alert_data :: json
  alert_priority :: int
  alert_config_id :: "int option"

text \<open>
  What the agent takes from outside: the clock (\<open>datetime.now()\<close>, naive local time in
  microseconds), the rows the database returns for the user's active configurations, the
  balance the database computes (either may raise), the AI Gateway's \<open>analyze_data\<close>
  (it returns \<open>None\<close> on every failure of its own), and \<open>format(x, '.2f')\<close>.
\<close>

record alert_env =
  now :: int
  db_alert_configs :: "string \<Rightarrow> exn + alert_config list"
  db_user_balance :: "string \<Rightarrow> exn + real"
  ai_analyze_data :: "transaction list \<Rightarrow> string \<Rightarrow> (string \<times> json) list option"
  format_2f :: "real \<Rightarrow> string"

definition item :: "string \<Rightarrow> 'a option \<Rightarrow> 'a comp" where
  "item k field = (case field of None \<Rightarrow> throw (KeyError k) | Some v \<Rightarrow> ret v)"

definition microseconds_per_day :: int where
  "microseconds_per_day = 86400000000"

definition period_start :: "int \<Rightarrow> string \<Rightarrow> int" where
  "period_start now_t period =
     (if period = ''daily'' then now_t - now_t mod microseconds_per_day
      else if period = ''weekly'' then now_t - 7 * microseconds_per_day
      else if period = ''monthly'' then now_t - 30 * microseconds_per_day
      else now_t - 1 * microseconds_per_day)"

definition trans_date :: "transaction \<Rightarrow> datetime option comp" where
  "trans_date t =
     (case tx_timestamp t of
        TsText None \<Rightarrow> throw ValueError
      | TsText (Some d) \<Rightarrow> ret (Some d)
      | TsDatetime d \<Rightarrow> ret (Some d)
      | TsNull \<Rightarrow> ret None
      | TsAbsent \<Rightarrow> throw (KeyError ''timestamp''))"

text \<open>
  \<open>trans_date >= start_date\<close> against the naive \<open>start_date\<close>: Python orders two naive
  values and raises \<open>TypeError\<close> for an aware value or \<open>None\<close>.
\<close>

definition on_or_after :: "datetime option \<Rightarrow> int \<Rightarrow> bool comp" where
  "on_or_after d start_date =
     (case d of
        Some (Naive t) \<Rightarrow> ret (t \<ge> start_date)
      | Some (Aware t offset) \<Rightarrow> throw TypeError
      | None \<Rightarrow> throw TypeError)"

text \<open>
  The loop shared by the two spending calculations: \<open>counts\<close> is the test made on a
  transaction inside the window before its amount is added.
\<close>

fun sum_in_window :: "int \<Rightarrow> (transaction \<Rightarrow> bool) \<Rightarrow> transaction list \<Rightarrow> real \<Rightarrow> real comp" where
  "sum_in_window start_date counts [] total_spending = ret total_spending"
| "sum_in_window start_date counts (t # ts) total_spending =
     and_then (trans_date t) (\<lambda>d.
     and_then (on_or_after d start_date) (\<lambda>inside.
     sum_in_window start_date counts ts
       (if inside \<and> counts t then total_spending + amount_of t else total_spending)))"

definition calculate_spending_for_period :: "alert_env \<Rightarrow> transaction list \<Rightarrow> string \<Rightarrow> real comp" where
  "calculate_spending_for_period env transactions period =
     try_except
       (sum_in_window (period_start (now env) period) (\<lambda>t. True) transactions 0)
       (\<lambda>e. ret 0)"

text \<open>
  For stating what the loop adds up: the reading of a transaction whose timestamp is a
  naive \<open>datetime\<close>, given as an object or as a text without offset, and the test
  that this reading is not before the start of the window.
\<close>

definition naive_time :: "transaction \<Rightarrow> int option" where
  "naive_time t =
     (case tx_timestamp t of
        TsDatetime (Naive n) \<Rightarrow> Some n
      | TsText (Some (Naive n)) \<Rightarrow> Some n
      | _ \<Rightarrow> None)"

definition in_window :: "int \<Rightarrow> transaction \<Rightarrow> bool" where
  "in_window start_date t = (case naive_time t of Some n \<Rightarrow> n \<ge> start_date | None \<Rightarrow> False)"

definition budget_category_keywords :: "(string \<times> string list) list" where
  "budget_category_keywords =
     [(''coffee'', [''coffee'', ''starbucks'', ''cafe'']),
      (''food'', [''restaurant'', ''dining'', ''food'', ''lunch'', ''dinner'']),
      (''entertainment'', [''movie'', ''game'', ''netflix'', ''spotify'']),
      (''shopping'', [''amazon'', ''store'', ''retail''])]"

definition keywords_of :: "string \<Rightarrow> string list" where
  "keywords_of category =
     (case map_of budget_category_keywords (lower category) of
        None \<Rightarrow> [lower category]
      | Some ks \<Rightarrow> ks)"

definition transaction_desc :: "transaction \<Rightarrow> string" where
  "transaction_desc t = lower (case tx_description t of None \<Rightarrow> [] | Some d \<Rightarrow> d)"

definition calculate_category_spending ::
    "alert_env \<Rightarrow> transaction list \<Rightarrow> string \<Rightarrow> string \<Rightarrow> real comp" where
  "calculate_category_spending env transactions category period =
     try_except
       (sum_in_window (period_start (now env) period)
          (\<lambda>t. any_in (keywords_of category) (transaction_desc t)) transactions 0)
       (\<lambda>e. ret 0)"

text \<open>
  The comprehension \<open>[config for config in alert_configs if config["alert_type"] == kind]\<close>.
\<close>

fun configs_of_type :: "string \<Rightarrow> alert_config list \<Rightarrow> alert_config list comp" where
  "configs_of_type kind [] = ret []"
| "configs_of_type kind (config # rest) =
     and_then (item ''alert_type'' (cfg_alert_type config)) (\<lambda>ty.
     and_then (configs_of_type kind rest) (\<lambda>selected.
     ret (if ty = kind then config # selected else selected)))"

definition spending_threshold_alert :: "alert_env \<Rightarrow> transaction list \<Rightarrow> alert_config \<Rightarrow> alert list comp" where
  "spending_threshold_alert env transactions config =
     and_then (item ''threshold_value'' (cfg_threshold_value config)) (\<lambda>threshold_value.
     and_then (item ''threshold_period'' (cfg_threshold_period config)) (\<lambda>period.
     and_then (calculate_spending_for_period env transactions period) (\<lambda>spending.
     if spending > threshold_value then
       and_then (item ''alert_name'' (cfg_alert_name config)) (\<lambda>alert_name.
       and_then (item ''id'' (cfg_id config)) (\<lambda>config_id.
       ret [\<lparr> alert_type = ''spending_threshold'',
              alert_title = ''Spending Alert: '' @ alert_name,
              alert_description = JStr
                (''You've spent $'' @ format_2f env spending @ '' this '' @ period
                   @ '', exceeding your threshold of $'' @ format_2f env threshold_value),
              alert_data = JDict
                [(''threshold_value'', JNum threshold_value),
                 (''actual_spending'', JNum spending),
                 (''period'', JStr period),
                 (''excess_amount'', JNum (spending - threshold_value))],
              alert_priority = 3,
              alert_config_id = Some config_id \<rparr>]))
     else ret [])))"

text \<open>
  Each of the five checks is a \<open>try\<close> block whose handler logs the exception and
  returns the empty list.  The block is the definition named \<open>..._try\<close>, the check is
  the block under its handler.
\<close>

definition spending_threshold_try ::
    "alert_env \<Rightarrow> transaction list \<Rightarrow> string \<Rightarrow> alert_config list \<Rightarrow> alert list comp" where
  "spending_threshold_try env transactions username alert_configs =
     and_then (configs_of_type ''spending_threshold'' alert_configs) (\<lambda>threshold_configs.
     for_each (spending_threshold_alert env transactions) threshold_configs)"

definition check_spending_threshold_alerts ::
    "alert_env \<Rightarrow> transaction list \<Rightarrow> string \<Rightarrow> alert_config list \<Rightarrow> alert list comp" where
  "check_spending_threshold_alerts env transactions username alert_configs =
     try_except (spending_threshold_try env transactions username alert_configs) (\<lambda>e. ret [])"

definition category_budget_alert :: "alert_env \<Rightarrow> transaction list \<Rightarrow> alert_config \<Rightarrow> alert list comp" where
  "category_budget_alert env transactions config =
     and_then (item ''threshold_value'' (cfg_threshold_value config)) (\<lambda>threshold_value.
     and_then (item ''threshold_period'' (cfg_threshold_period config)) (\<lambda>period.
     let category = (case cfg_alert_name config of None \<Rightarrow> ''Unknown Category'' | Some n \<Rightarrow> n) in
     and_then (calculate_category_spending env transactions category period) (\<lambda>category_spending.
     if category_spending > threshold_value then
       and_then (item ''id'' (cfg_id config)) (\<lambda>config_id.
       ret [\<lparr> alert_type = ''category_budget'',
              alert_title = ''Category Budget Alert: '' @ category,
              alert_description = JStr
                (''You've spent $'' @ format_2f env category_spending @ '' on '' @ category
                   @ '' this '' @ period @ '', exceeding your budget of $''
                   @ format_2f env threshold_value),
              alert_data = JDict
                [(''category'', JStr category),
                 (''threshold_value'', JNum threshold_value),
                 (''actual_spending'', JNum category_spending),
                 (''period'', JStr period),
                 (''excess_amount'', JNum (category_spending - threshold_value))],
              alert_priority = 3,
              alert_config_id = Some config_id \<rparr>])
     else ret [])))"

definition category_budget_try ::
    "alert_env \<Rightarrow> transaction list \<Rightarrow> string \<Rightarrow> alert_config list \<Rightarrow> alert list comp" where
  "category_budget_try env transactions username alert_configs =
     and_then (configs_of_type ''category_budget'' alert_configs) (\<lambda>category_configs.
     for_each (category_budget_alert env transactions) category_configs)"

definition check_category_budget_alerts ::
    "alert_env \<Rightarrow> transaction list \<Rightarrow> string \<Rightarrow> alert_config list \<Rightarrow> alert list comp" where
  "check_category_budget_alerts env transactions username alert_configs =
     try_except (category_budget_try env transactions username alert_configs) (\<lambda>e. ret [])"

text \<open>
  Iterating over a parsed value (\<open>for x in v\<close>) and \<open>x.get(k, default)\<close>: a list gives
  its elements, a dictionary its keys, a text its characters, anything else raises
  \<open>TypeError\<close>; only a dictionary has \<open>get\<close>.
\<close>

fun iterate :: "json \<Rightarrow> json list comp" where
  "iterate (JList xs) = ret xs"
| "iterate (JDict kvs) = ret (map (\<lambda>(k, v). JStr k) kvs)"
| "iterate (JStr s) = ret (map (\<lambda>c. JStr [c]) s)"
| "iterate v = throw TypeError"

fun get_or :: "json \<Rightarrow> string \<Rightarrow> json \<Rightarrow> json comp" where
  "get_or (JDict kvs) k dflt = ret (dict_get kvs k dflt)"
| "get_or v k dflt = throw AttributeError"

definition detect_unusual_patterns :: "alert_env \<Rightarrow> transaction list \<Rightarrow> string \<Rightarrow> (json \<times> json) list comp" where
  "detect_unusual_patterns env transactions username =
     try_except
       (and_then (extern (AiAnalyzeData ''unusual_spending_detection'')
                    (Inr (ai_analyze_data env transactions ''unusual_spending_detection'')))
          (\<lambda>analysis_result.
             case analysis_result of
               None \<Rightarrow> ret []
             | Some d \<Rightarrow>
                 (case map_of d ''unusual_patterns'' of
                    None \<Rightarrow> ret []
                  | Some v \<Rightarrow>
                      and_then (iterate v)
                        (for_each (\<lambda>pattern.
                           and_then (get_or pattern ''description''
                                       (JStr ''Unusual spending pattern detected'')) (\<lambda>description.
                           and_then (get_or pattern ''data'' (JDict [])) (\<lambda>data.
                           ret [(description, data)])))))))
       (\<lambda>e. ret [])"

definition unusual_spending_try ::
    "alert_env \<Rightarrow> transaction list \<Rightarrow> string \<Rightarrow> alert_config list \<Rightarrow> alert list comp" where
  "unusual_spending_try env transactions username alert_configs =
     (if length transactions < 10 then ret []
      else
        and_then (detect_unusual_patterns env transactions username) (\<lambda>unusual_patterns.
        ret (map (\<lambda>(description, data).
               \<lparr> alert_type = ''unusual_spending'',
                 alert_title = ''Unusual Spending Pattern Detected'',
                 alert_description = description,
                 alert_data = data,
                 alert_priority = 2,
                 alert_config_id = None \<rparr>) unusual_patterns)))"

definition check_unusual_spending_alerts ::
    "alert_env \<Rightarrow> transaction list \<Rightarrow> string \<Rightarrow> alert_config list \<Rightarrow> alert list comp" where
  "check_unusual_spending_alerts env transactions username alert_configs =
     try_except (unusual_spending_try env transactions username alert_configs) (\<lambda>e. ret [])"

definition low_balance_alert :: "alert_env \<Rightarrow> real \<Rightarrow> alert_config \<Rightarrow> alert list comp" where
  "low_balance_alert env current_balance config =
     and_then (item ''threshold_value'' (cfg_threshold_value config)) (\<lambda>threshold_value.
     if current_balance < threshold_value then
       and_then (item ''id'' (cfg_id config)) (\<lambda>config_id.
       ret [\<lparr> alert_type = ''low_balance'',
              alert_title = ''Low Balance Alert'',
              alert_description = JStr
                (''Your current balance ($'' @ format_2f env current_balance
                   @ '') is below your threshold ($'' @ format_2f env threshold_value @ '')''),
              alert_data = JDict
                [(''current_balance'', JNum current_balance),
                 (''threshold_value'', JNum threshold_value),
                 (''deficit'', JNum (threshold_value - current_balance))],
              alert_priority = 4,
              alert_config_id = Some config_id \<rparr>])
     else ret [])"

definition balance_try :: "alert_env \<Rightarrow> string \<Rightarrow> alert_config list \<Rightarrow> alert list comp" where
  "balance_try env username alert_configs =
     and_then (configs_of_type ''low_balance'' alert_configs) (\<lambda>balance_configs.
     if balance_configs = [] then ret []
     else
       and_then (extern (DbUserBalance username) (db_user_balance env username)) (\<lambda>current_balance.
       for_each (low_balance_alert env current_balance) balance_configs))"

definition check_balance_alerts :: "alert_env \<Rightarrow> string \<Rightarrow> alert_config list \<Rightarrow> alert list comp" where
  "check_balance_alerts env username alert_configs =
     try_except (balance_try env username alert_configs) (\<lambda>e. ret [])"

definition analyze_spending_improvements ::
    "alert_env \<Rightarrow> transaction list \<Rightarrow> string \<Rightarrow> (json \<times> json \<times> bool) list comp" where
  "analyze_spending_improvements env transactions username =
     try_except
       (and_then (extern (AiAnalyzeData ''spending_improvement_analysis'')
                    (Inr (ai_analyze_data env transactions ''spending_improvement_analysis'')))
          (\<lambda>analysis_result.
             case analysis_result of
               None \<Rightarrow> ret []
             | Some d \<Rightarrow>
                 (case map_of d ''improvements'' of
                    None \<Rightarrow> ret []
                  | Some v \<Rightarrow>
                      and_then (iterate v)
                        (for_each (\<lambda>improvement.
                           and_then (get_or improvement ''is_positive'' (JBool False)) (\<lambda>is_positive.
                           if truthy is_positive then
                             and_then (get_or improvement ''description''
                                         (JStr ''Positive spending improvement detected'')) (\<lambda>description.
                             and_then (get_or improvement ''data'' (JDict [])) (\<lambda>data.
                             ret [(description, data, True)]))
                           else ret []))))))
       (\<lambda>e. ret [])"

definition improvement_try ::
    "alert_env \<Rightarrow> transaction list \<Rightarrow> string \<Rightarrow> json list \<Rightarrow> alert list comp" where
  "improvement_try env transactions username user_preferences =
     (if length transactions < 20 then ret []
      else
        and_then (analyze_spending_improvements env transactions username) (\<lambda>improvements.
        ret (map (\<lambda>(description, data, is_positive).
               \<lparr> alert_type = ''improvement_alert'',
                 alert_title = ''Great Job! Spending Improvement Detected'',
                 alert_description = description,
                 alert_data = data,
                 alert_priority = 1,
                 alert_config_id = None \<rparr>)
               (filter (\<lambda>(description, data, is_positive). is_positive) improvements))))"

definition check_improvement_alerts ::
    "alert_env \<Rightarrow> transaction list \<Rightarrow> string \<Rightarrow> json list \<Rightarrow> alert list comp" where
  "check_improvement_alerts env transactions username user_preferences =
     try_except (improvement_try env transactions username user_preferences) (\<lambda>e. ret [])"

definition get_user_alert_configs :: "alert_env \<Rightarrow> string \<Rightarrow> alert_config list comp" where
  "get_user_alert_configs env username =
     try_except (extern (DbAlertConfigs username) (db_alert_configs env username)) (\<lambda>e. ret [])"

definition check_alerts ::
    "alert_env \<Rightarrow> transaction list \<Rightarrow> string \<Rightarrow> json list \<Rightarrow> alert list comp" where
  "check_alerts env transactions username user_preferences =
     try_except
       (if transactions = [] then ret []
        else
          and_then (get_user_alert_configs env username) (\<lambda>alert_configs.
          and_then (check_spending_threshold_alerts env transactions username alert_configs) (\<lambda>a1.
          and_then (check_category_budget_alerts env transactions username alert_configs) (\<lambda>a2.
          and_then (check_unusual_spending_alerts env transactions username alert_configs) (\<lambda>a3.
          and_then (check_balance_alerts env username alert_configs) (\<lambda>a4.
          and_then (check_improvement_alerts env transactions username user_preferences) (\<lambda>a5.
          ret (a1 @ a2 @ a3 @ a4 @ a5))))))))
       (\<lambda>e. ret [])"

section \<open>Preference store\<close>

text \<open>
  The table \<open>user_preferences\<close> of the accounts database: the rows that are committed, in
  storage order, and the next value of the sequence behind the \<open>SERIAL\<close> column \<open>id\<close>.
  The timestamp columns are left out.  The table has no unique constraint on
  (username, preference_type, preference_key).

  \<open>insert_accepted\<close> is the answer of the driver and the database to the \<open>INSERT\<close> with
  the four bound values: whether the user exists (foreign key), the texts fit their
  columns, and the value, bound as the Python object it is, is taken for the \<open>JSONB\<close>
  column.  The statements are built with \<open>text()\<close> and the parameters go to the driver
  as they are; \<open>psycopg2\<close> has no adaptation for a \<open>dict\<close> and raises on one
  (\<open>bind_parameter\<close>).
\<close>

record pref_row =
  pref_id :: int
  pref_username :: string
  pref_type :: string
  pref_key :: string
  pref_value :: json

record accounts_db =
  user_preferences :: "pref_row list"
  next_pref_id :: int
  insert_accepted :: "string \<Rightarrow> string \<Rightarrow> string \<Rightarrow> json \<Rightarrow> bool"

definition pref_matches :: "string \<Rightarrow> string \<Rightarrow> string \<Rightarrow> pref_row \<Rightarrow> bool" where
  "pref_matches username preference_type preference_key r =
     (pref_username r = username \<and> pref_type r = preference_type \<and> pref_key r = preference_key)"

definition bind_parameter :: "json \<Rightarrow> bool" where
  "bind_parameter v = (case v of JDict kvs \<Rightarrow> False | _ \<Rightarrow> True)"

text \<open>
  The three statements that \<open>save_user_preference\<close> sends, with their parameters.
\<close>

datatype statement =
    SelectPreferenceId string string string
  | UpdatePreferenceValue json int
  | InsertPreference string string string json

text \<open>
  \<open>execute_query\<close> opens a connection, executes the statement, builds the list of the
  rows of the result, and leaves the \<open>with\<close> block, which closes the connection; it
  re-raises every \<open>SQLAlchemyError\<close>.  The rows are given here by their column \<open>id\<close>,
  the only column the three statements return.

  No statement is committed: the transaction that the connection began for the statement
  is rolled back when the connection is closed, so the table is after the call what it was
  before.  A value drawn from the sequence is not given back.

  The result of an \<open>UPDATE\<close> has no rows; iterating over it raises
  \<open>ResourceClosedError\<close>, a \<open>SQLAlchemyError\<close>.  So \<open>execute_query\<close> raises on
  every \<open>UPDATE\<close>, whether the driver refused the value or the statement ran.
\<close>

definition execute_query :: "accounts_db \<Rightarrow> statement \<Rightarrow> (exn + int list) \<times> accounts_db" where
  "execute_query db stmt =
     (case stmt of
        SelectPreferenceId username preference_type preference_key \<Rightarrow>
          (Inr (map pref_id
                  (filter (pref_matches username preference_type preference_key) (user_preferences db))),
           db)
      | UpdatePreferenceValue preference_value row_id \<Rightarrow> (Inl SQLAlchemyError, db)
      | InsertPreference username preference_type preference_key preference_value \<Rightarrow>
          if bind_parameter preference_value
             \<and> insert_accepted db username preference_type preference_key preference_value
          then (Inr [next_pref_id db], db\<lparr>next_pref_id := next_pref_id db + 1\<rparr>)
          else (Inl SQLAlchemyError, db))"

definition save_user_preference ::
    "accounts_db \<Rightarrow> string \<Rightarrow> string \<Rightarrow> string \<Rightarrow> json \<Rightarrow> (exn + int option) \<times> accounts_db" where
  "save_user_preference db username preference_type preference_key preference_value =
     (case execute_query db (SelectPreferenceId username preference_type preference_key) of
        (Inl e, db1) \<Rightarrow> (Inl e, db1)
      | (Inr existing, db1) \<Rightarrow>
          (case existing of
             existing_id # others \<Rightarrow>
               (case execute_query db1 (UpdatePreferenceValue preference_value existing_id) of
                  (Inl e, db2) \<Rightarrow> (Inl e, db2)
                | (Inr rows, db2) \<Rightarrow> (Inr (Some existing_id), db2))
           | [] \<Rightarrow>
               (case execute_query db1
                       (InsertPreference username preference_type preference_key preference_value) of
                  (Inl e, db2) \<Rightarrow> (Inl e, db2)
                | (Inr result, db2) \<Rightarrow>
                    (Inr (case result of [] \<Rightarrow> None | new_id # rest \<Rightarrow> Some new_id), db2))))"

text \<open>\<open>if pref_id:\<close> holds for an id that is neither \<open>None\<close> nor 0.\<close>

definition id_truthy :: "int option \<Rightarrow> bool" where
  "id_truthy pid = (case pid of None \<Rightarrow> False | Some n \<Rightarrow> n \<noteq> 0)"

text \<open>
  The inner loop of \<open>update_preferences\<close> over the items of one preference type and
  its outer loop over the types, each carrying \<open>success_count\<close>.
\<close>

fun save_items ::
    "accounts_db \<Rightarrow> string \<Rightarrow> string \<Rightarrow> (string \<times> json) list \<Rightarrow> nat \<Rightarrow> (exn + nat) \<times> accounts_db" where
  "save_items db username pref_ty [] success_count = (Inr success_count, db)"
| "save_items db username pref_ty ((k, v) # rest) success_count =
     (case save_user_preference db username pref_ty k v of
        (Inl e, db') \<Rightarrow> (Inl e, db')
      | (Inr pid, db') \<Rightarrow>
          save_items db' username pref_ty rest
            (if id_truthy pid then success_count + 1 else success_count))"

fun save_types ::
    "accounts_db \<Rightarrow> string \<Rightarrow> (string \<times> json) list \<Rightarrow> nat \<Rightarrow> (exn + nat) \<times> accounts_db" where
  "save_types db username [] success_count = (Inr success_count, db)"
| "save_types db username ((pref_ty, pref_data) # rest) success_count =
     (case (case pref_data of
              JDict kvs \<Rightarrow> save_items db username pref_ty kvs success_count
            | _ \<Rightarrow> save_items db username pref_ty [(''default'', pref_data)] success_count) of
        (Inl e, db') \<Rightarrow> (Inl e, db')
      | (Inr success_count', db') \<Rightarrow> save_types db' username rest success_count')"

definition update_preferences :: "accounts_db \<Rightarrow> string \<Rightarrow> (string \<times> json) list \<Rightarrow> bool \<times> accounts_db" where
  "update_preferences db username preferences =
     (case save_types db username preferences 0 of
        (Inl e, db') \<Rightarrow> (False, db')
      | (Inr success_count, db') \<Rightarrow> (success_count > 0, db'))"

section \<open>Orchestrator\<close>








section \<open>Properties of SQL validation\<close>





















section \<open>Properties of query understanding\<close>

lemma coffee_intent:
  "understand_query ''Show me my coffee spending this month'' None =
     Some \<lparr> original_query = ''Show me my coffee spending this month'',
            analysis_type = JStr ''general'',
            time_period = JStr ''this_month'',
            categories = JList [JStr ''food''],
            needs_visualization = JBool True,
            priority = JNum 3,
            confidence = JNum 0.7 \<rparr>"
  by code_simp

text \<open>
  Claim C3 as stated says that the query "Show me my coffee spending this month" gets
  \<open>needs_visualization\<close> false.  The lowercased query contains the visualization
  keyword \<open>show\<close>, so the fallback rule sets it.
\<close>

theorem understand_query_coffee_counterexample:
  "map_option needs_visualization (understand_query ''Show me my coffee spending this month'' None)
     = Some (JBool True)
   \<and> map_option needs_visualization (understand_query ''Show me my coffee spending this month'' None)
     \<noteq> Some (JBool False)"
  by (simp add: coffee_intent)

lemma determine_analysis_type_None:
  "determine_analysis_type ql None =
     JStr (if \<exists>k\<in>{''trend'', ''over time'', ''change'', ''increase'', ''decrease''}. sublist k ql
             then ''spending_trends''
           else if \<exists>k\<in>{''category'', ''breakdown'', ''spend on'', ''where''}. sublist k ql
             then ''category_analysis''
           else if \<exists>k\<in>{''improve'', ''better'', ''worse'', ''progress'', ''doing''}. sublist k ql
             then ''improvement''
           else ''general'')"
  by (simp add: determine_analysis_type_def ai_field_def any_in_def)

lemma extract_time_period_None:
  "extract_time_period ql None =
     JStr (if sublist ''today'' ql then ''today''
           else if sublist ''yesterday'' ql then ''yesterday''
           else if sublist ''this week'' ql then ''this_week''
           else if sublist ''last week'' ql then ''last_week''
           else if sublist ''this month'' ql then ''this_month''
           else if sublist ''last month'' ql then ''last_month''
           else if sublist ''this year'' ql then ''this_year''
           else if sublist ''last year'' ql then ''last_year''
           else ''this_month'')"
  by (simp add: extract_time_period_def ai_field_def time_patterns_def replace_char_def)

lemma extract_categories_None:
  "\<exists>cats. extract_categories ql None = JList (map JStr cats) \<and>
     subseq cats [''food'', ''entertainment'', ''transportation'', ''shopping'', ''utilities'',
                  ''healthcare'', ''education''] \<and>
     (\<forall>c. c \<in> set cats \<longleftrightarrow> (\<exists>ks. (c, ks) \<in> set category_keywords \<and> (\<exists>k\<in>set ks. sublist k ql)))"
proof -
  let ?sel = "filter (\<lambda>(category, keywords). any_in keywords ql) category_keywords"
  have "extract_categories ql None = JList (map JStr (map fst ?sel))"
    by (simp add: extract_categories_def ai_field_def case_prod_beta comp_def)
  moreover have "c \<in> set (map fst ?sel) \<longleftrightarrow>
      (\<exists>ks. (c, ks) \<in> set category_keywords \<and> (\<exists>k\<in>set ks. sublist k ql))" for c
    by (auto simp: any_in_def list_ex_iff) force
  moreover have "subseq (map fst ?sel) (map fst category_keywords)"
    by (rule subseq_map) (rule subseq_filter_left)
  then have "subseq (map fst ?sel) [''food'', ''entertainment'', ''transportation'', ''shopping'',
      ''utilities'', ''healthcare'', ''education'']"
    by (simp add: category_keywords_def)
  ultimately show ?thesis by blast
qed

lemma needs_visualization_None:
  "needs_visualization_of ql None =
     JBool (\<exists>k\<in>{''chart'', ''graph'', ''visual'', ''show'', ''plot'', ''display''}. sublist k ql)"
  by (simp add: needs_visualization_of_def ai_field_def any_in_def)

lemma determine_priority_None:
  "determine_priority ql None =
     JNum (if \<exists>k\<in>{''urgent'', ''important'', ''asap'', ''quickly'', ''immediately''}. sublist k ql
           then 5 else 3)"
  by (simp add: determine_priority_def ai_field_def any_in_def)

text \<open>
  Claim C3, amended.  For every query, when the AI Gateway returns no result,
  \<open>understand_query\<close> returns an intent, with confidence 0.7 and every other field
  given by the keyword rules applied to the trimmed lowercased query.  The analysis type
  is \<open>spending_trends\<close> when one of \<open>trend\<close>, \<open>over time\<close>, \<open>change\<close>, \<open>increase\<close>,
  \<open>decrease\<close> occurs in it, else \<open>category_analysis\<close> when one of \<open>category\<close>,
  \<open>breakdown\<close>, \<open>spend on\<close>, \<open>where\<close> occurs, else \<open>improvement\<close> when one of
  \<open>improve\<close>, \<open>better\<close>, \<open>worse\<close>, \<open>progress\<close>, \<open>doing\<close> occurs, else \<open>general\<close>.
  The time period is the first of \<open>today\<close>, \<open>yesterday\<close>, \<open>this week\<close>, \<open>last week\<close>,
  \<open>this month\<close>, \<open>last month\<close>, \<open>this year\<close>, \<open>last year\<close> that occurs in it, with the
  space replaced by an underscore, and \<open>this_month\<close> when none occurs.  The categories
  are listed in the order of the table, a category exactly when one of its keywords
  occurs.  \<open>needs_visualization\<close> holds exactly when one of the six visualization
  keywords occurs, and the priority is 5 when one of the five urgency keywords occurs and
  3 otherwise.  For "Show me my coffee spending this month" the categories are \<open>food\<close>
  (by \<open>coffee\<close>), the time period is \<open>this_month\<close> (by \<open>this month\<close>) and
  \<open>needs_visualization\<close> is true (by \<open>show\<close>).
\<close>

theorem understand_query_fallback:
  "(\<exists>i cats. understand_query q None = Some i
       \<and> original_query i = q
       \<and> confidence i = JNum 0.7
       \<and> analysis_type i =
            JStr (if \<exists>k\<in>{''trend'', ''over time'', ''change'', ''increase'', ''decrease''}.
                       sublist k (strip (lower q))
                    then ''spending_trends''
                  else if \<exists>k\<in>{''category'', ''breakdown'', ''spend on'', ''where''}.
                       sublist k (strip (lower q))
                    then ''category_analysis''
                  else if \<exists>k\<in>{''improve'', ''better'', ''worse'', ''progress'', ''doing''}.
                       sublist k (strip (lower q))
                    then ''improvement''
                  else ''general'')
       \<and> time_period i =
            JStr (if sublist ''today'' (strip (lower q)) then ''today''
                  else if sublist ''yesterday'' (strip (lower q)) then ''yesterday''
                  else if sublist ''this week'' (strip (lower q)) then ''this_week''
                  else if sublist ''last week'' (strip (lower q)) then ''last_week''
                  else if sublist ''this month'' (strip (lower q)) then ''this_month''
                  else if sublist ''last month'' (strip (lower q)) then ''last_month''
                  else if sublist ''this year'' (strip (lower q)) then ''this_year''
                  else if sublist ''last year'' (strip (lower q)) then ''last_year''
                  else ''this_month'')
       \<and> categories i = JList (map JStr cats)
       \<and> subseq cats [''food'', ''entertainment'', ''transportation'', ''shopping'', ''utilities'',
                       ''healthcare'', ''education'']
       \<and> (\<forall>c. c \<in> set cats \<longleftrightarrow>
              (\<exists>ks. (c, ks) \<in> set category_keywords \<and> (\<exists>k\<in>set ks. sublist k (strip (lower q)))))
       \<and> needs_visualization i =
            JBool (\<exists>k\<in>{''chart'', ''graph'', ''visual'', ''show'', ''plot'', ''display''}.
                     sublist k (strip (lower q)))
       \<and> priority i =
            JNum (if \<exists>k\<in>{''urgent'', ''important'', ''asap'', ''quickly'', ''immediately''}.
                       sublist k (strip (lower q))
                  then 5 else 3))
   \<and> understand_query ''Show me my coffee spending this month'' None =
       Some \<lparr> original_query = ''Show me my coffee spending this month'',
              analysis_type = JStr ''general'',
              time_period = JStr ''this_month'',
              categories = JList [JStr ''food''],
              needs_visualization = JBool True,
              priority = JNum 3,
              confidence = JNum 0.7 \<rparr>"
proof -
  let ?ql = "strip (lower q)"
  obtain cats where cats: "extract_categories ?ql None = JList (map JStr cats)"
    "subseq cats [''food'', ''entertainment'', ''transportation'', ''shopping'', ''utilities'',
                  ''healthcare'', ''education'']"
    "\<forall>c. c \<in> set cats \<longleftrightarrow> (\<exists>ks. (c, ks) \<in> set category_keywords \<and> (\<exists>k\<in>set ks. sublist k ?ql))"
    using extract_categories_None[of ?ql] by blast
  define i where "i =
      \<lparr> original_query = q,
        analysis_type = determine_analysis_type ?ql None,
        time_period = extract_time_period ?ql None,
        categories = extract_categories ?ql None,
        needs_visualization = needs_visualization_of ?ql None,
        priority = determine_priority ?ql None,
        confidence = JNum 0.7 \<rparr>"
  have u: "understand_query q None = Some i"
    by (simp add: understand_query_def Let_def i_def)
  have f1: "original_query i = q" and f2: "confidence i = JNum 0.7"
    and f3: "analysis_type i = determine_analysis_type ?ql None"
    and f4: "time_period i = extract_time_period ?ql None"
    and f5: "categories i = JList (map JStr cats)"
    and f6: "needs_visualization i = needs_visualization_of ?ql None"
    and f7: "priority i = determine_priority ?ql None"
    by (simp_all add: i_def cats(1))
  show ?thesis
    apply (rule conjI)
     apply (rule exI[of _ i], rule exI[of _ cats])
     apply (intro conjI)
             apply (rule u)
            apply (rule f1)
           apply (rule f2)
          apply (simp only: f3 determine_analysis_type_None)
         apply (simp only: f4 extract_time_period_None)
        apply (rule f5)
       apply (rule cats(2))
      apply (rule cats(3))
     apply (simp only: f6 needs_visualization_None)
    apply (simp only: f7 determine_priority_None)
    apply (rule coffee_intent)
    done
qed

section \<open>Properties of the ad-hoc query workflow\<close>





section \<open>Properties of category bucketing\<close>

lemma amount_category_cases:
  "(a < 50 \<longrightarrow> amount_category a = ''Small purchases (<$50)'') \<and>
   (50 \<le> a \<and> a < 200 \<longrightarrow> amount_category a = ''Medium purchases ($50-$200)'') \<and>
   (200 \<le> a \<and> a < 500 \<longrightarrow> amount_category a = ''Large purchases ($200-$500)'') \<and>
   (500 \<le> a \<longrightarrow> amount_category a = ''Very large purchases (>$500)'')"
  by (simp add: amount_category_def)

lemma sql_category_case_cases:
  "(n < 50 \<longrightarrow> sql_category_case n = ''Small purchases'') \<and>
   (50 \<le> n \<and> n < 200 \<longrightarrow> sql_category_case n = ''Medium purchases'') \<and>
   (200 \<le> n \<and> n < 500 \<longrightarrow> sql_category_case n = ''Large purchases'') \<and>
   (500 \<le> n \<longrightarrow> sql_category_case n = ''Very large purchases'')"
  by (simp add: sql_category_case_def)

lemma same_bucket: "prefix (sql_category_case n) (amount_category (real_of_int n))"
  by (simp add: sql_category_case_def amount_category_def)

lemma amount_category_key: "amount_category a \<in> fst ` set initial_categories"
  by (simp add: amount_category_def initial_categories_def)

lemma map_of_dict_add:
  "map_of (dict_add k a d) k' =
     (case map_of d k' of None \<Rightarrow> None | Some v \<Rightarrow> Some (if k' = k then v + a else v))"
  by (induction d) (auto simp: dict_add_def)

lemma keys_dict_add: "map fst (dict_add k a d) = map fst d"
  by (induction d) (auto simp: dict_add_def)

lemma categorize_sums:
  "categorize ts (cats, tot) = (cats', tot') \<Longrightarrow>
     map fst cats' = map fst cats \<and>
     tot' = tot + sum_list (map amount_of ts) \<and>
     (\<forall>k v. map_of cats k = Some v \<longrightarrow>
        map_of cats' k = Some (v + sum_list (map amount_of (filter (\<lambda>t. amount_category (amount_of t) = k) ts))))"
proof (induction ts arbitrary: cats tot)
  case Nil
  then show ?case by simp
next
  case (Cons t ts)
  let ?a = "amount_of t"
  from Cons.prems have "categorize ts (dict_add (amount_category ?a) ?a cats, tot + ?a) = (cats', tot')"
    by (simp add: Let_def)
  from Cons.IH[OF this] show ?case
    by (auto simp: keys_dict_add map_of_dict_add)
qed

lemma categorize_initial:
  assumes "k \<in> set (map fst initial_categories)"
  shows "map_of (fst (categorize ts (initial_categories, 0))) k =
     Some (sum_list (map amount_of (filter (\<lambda>t. amount_category (amount_of t) = k) ts)))"
proof -
  obtain cats' tot' where c: "categorize ts (initial_categories, 0) = (cats', tot')"
    by (cases "categorize ts (initial_categories, 0)")
  from assms have "map_of initial_categories k = Some 0"
    by (auto simp: initial_categories_def)
  with categorize_sums[OF c] c show ?thesis by simp
qed

lemma one_bucket: "\<exists>!k. k \<in> set (map fst initial_categories) \<and> amount_category a = k"
  using amount_category_key[of a] by auto

text \<open>
  Claim C4.  The bucket of a transaction is a function of its amount alone.  In the
  category-analysis insight an amount below 50 goes to \<open>Small purchases (<$50)\<close>, from
  50 and below 200 to \<open>Medium purchases ($50-$200)\<close>, from 200 and below 500 to
  \<open>Large purchases ($200-$500)\<close>, and from 500 to \<open>Very large purchases (>$500)\<close>; the
  \<open>CASE\<close> of the canned query names the same four ranges \<open>Small purchases\<close>,
  \<open>Medium purchases\<close>, \<open>Large purchases\<close> and \<open>Very large purchases\<close>, so its label
  is always the leading part of the insight's label.  Every amount has exactly one of
  the four buckets, and after the insight's loop each bucket holds the sum of the amounts
  of exactly the transactions that fall into it.
\<close>

theorem amount_buckets:
  "((a < 50 \<longrightarrow> amount_category a = ''Small purchases (<$50)'') \<and>
    (50 \<le> a \<and> a < 200 \<longrightarrow> amount_category a = ''Medium purchases ($50-$200)'') \<and>
    (200 \<le> a \<and> a < 500 \<longrightarrow> amount_category a = ''Large purchases ($200-$500)'') \<and>
    (500 \<le> a \<longrightarrow> amount_category a = ''Very large purchases (>$500)''))
   \<and> ((n < 50 \<longrightarrow> sql_category_case n = ''Small purchases'') \<and>
      (50 \<le> n \<and> n < 200 \<longrightarrow> sql_category_case n = ''Medium purchases'') \<and>
      (200 \<le> n \<and> n < 500 \<longrightarrow> sql_category_case n = ''Large purchases'') \<and>
      (500 \<le> n \<longrightarrow> sql_category_case n = ''Very large purchases''))
   \<and> prefix (sql_category_case n) (amount_category (real_of_int n))
   \<and> (\<exists>!k. k \<in> set (map fst initial_categories) \<and> amount_category a = k)
   \<and> (\<forall>k\<in>set (map fst initial_categories).
         map_of (fst (categorize ts (initial_categories, 0))) k =
           Some (sum_list (map amount_of (filter (\<lambda>t. amount_category (amount_of t) = k) ts))))"
  using amount_category_cases[of a] sql_category_case_cases[of n] same_bucket[of n]
    one_bucket[of a] categorize_initial[of _ ts]
  by blast

text \<open>
  The amounts 25 and 100, and the three transactions of the repository's insight test
  (50, 25 and 100): the medium bucket holds 150 and the small one 25.
\<close>

theorem amount_buckets_witness:
  "amount_category 25 = ''Small purchases (<$50)''
   \<and> sql_category_case 100 = ''Medium purchases''
   \<and> map_of (fst (categorize
          [\<lparr> tx_amount = Some 50, tx_timestamp = TsText (Some (Aware 0 0)), tx_description = Some ''Coffee'' \<rparr>,
           \<lparr> tx_amount = Some 25, tx_timestamp = TsText (Some (Aware 0 0)), tx_description = Some ''Lunch'' \<rparr>,
           \<lparr> tx_amount = Some 100, tx_timestamp = TsText (Some (Aware 0 0)), tx_description = Some ''Groceries'' \<rparr>]
          (initial_categories, 0))) ''Medium purchases ($50-$200)'' = Some 150
   \<and> map_of (fst (categorize
          [\<lparr> tx_amount = Some 50, tx_timestamp = TsText (Some (Aware 0 0)), tx_description = Some ''Coffee'' \<rparr>,
           \<lparr> tx_amount = Some 25, tx_timestamp = TsText (Some (Aware 0 0)), tx_description = Some ''Lunch'' \<rparr>,
           \<lparr> tx_amount = Some 100, tx_timestamp = TsText (Some (Aware 0 0)), tx_description = Some ''Groceries'' \<rparr>]
          (initial_categories, 0))) ''Small purchases (<$50)'' = Some 25"
proof -
  let ?ts = "[\<lparr> tx_amount = Some 50, tx_timestamp = TsText (Some (Aware 0 0)), tx_description = Some ''Coffee'' \<rparr>,
           \<lparr> tx_amount = Some 25, tx_timestamp = TsText (Some (Aware 0 0)), tx_description = Some ''Lunch'' \<rparr>,
           \<lparr> tx_amount = Some 100, tx_timestamp = TsText (Some (Aware 0 0)), tx_description = Some ''Groceries'' \<rparr>]"
  note t = amount_buckets[of 25 100 ?ts]
  have k1: "''Medium purchases ($50-$200)'' \<in> set (map fst initial_categories)"
    and k2: "''Small purchases (<$50)'' \<in> set (map fst initial_categories)"
    by (simp_all add: initial_categories_def)
  have s1: "sum_list (map amount_of (filter (\<lambda>t. amount_category (amount_of t) = ''Medium purchases ($50-$200)'') ?ts)) = 150"
    by (simp add: amount_of_def amount_category_def)
  have s2: "sum_list (map amount_of (filter (\<lambda>t. amount_category (amount_of t) = ''Small purchases (<$50)'') ?ts)) = 25"
    by (simp add: amount_of_def amount_category_def)
  have "(25::real) < 50" by simp
  with t[THEN conjunct1, THEN conjunct1]
  have a: "amount_category 25 = ''Small purchases (<$50)''" by (rule mp)
  have "(50::int) \<le> 100 \<and> (100::int) < 200" by simp
  with t[THEN conjunct2, THEN conjunct1, THEN conjunct2, THEN conjunct1]
  have b: "sql_category_case 100 = ''Medium purchases''" by (rule mp)
  note ball = t[THEN conjunct2, THEN conjunct2, THEN conjunct2, THEN conjunct2]
  note c = bspec[OF ball k1]
  note d = bspec[OF ball k2]
  from a b c[unfolded s1] d[unfolded s2] show ?thesis by (intro conjI)
qed

section \<open>Properties of the improvement analysis\<close>

lemma analyze_improvements_data:
  assumes "10 \<le> length ts"
  shows "\<exists>ins d pct. analyze_improvements env ts = Some ins
      \<and> ins_data ins = JDict d
      \<and> map_of d ''improvement_percentage'' = Some (JNum pct)
      \<and> pct = (if average_of (drop (length ts div 2) ts) > 0
               then round_double (round_double (round_double
                      (average_of (drop (length ts div 2) ts) - average_of (take (length ts div 2) ts))
                      / average_of (drop (length ts div 2) ts)) * 100)
               else 0)
      \<and> map_of d ''is_improvement'' = Some (JBool (pct > 5))
      \<and> map_of d ''trend_direction'' = Some (JStr (if pct > 5 then ''decreased'' else ''increased''))
      \<and> ins_priority ins = (if pct > 5 then 3 else 2)"
  using assms by (simp add: analyze_improvements_def Let_def)

lemma average_of_nonempty:
  "ts \<noteq> [] \<Longrightarrow> average_of ts = round_double (sum_list (map amount_of ts) / real (length ts))"
  by (simp add: average_of_def total_of_def)

lemma halves_nonempty:
  assumes "10 \<le> length ts"
  shows "take (length ts div 2) ts \<noteq> []" "drop (length ts div 2) ts \<noteq> []"
  using assms by auto

lemma percentage_40_100:
  "round_double (round_double (round_double (100 - 40) / 100) * 100) = 60"
  by code_simp

text \<open>
  Claim C5.  The amounts are integers of the ledger's \<open>INT\<close> column, so the totals are
  exact and every division, the subtraction and the multiplication of the analysis are
  operations on doubles.  For every list of at least 10 such transactions, split at the
  midpoint into the recent first half and the older second half, \<open>analyze_improvements\<close>
  returns an insight (no division error arises) whose \<open>improvement_percentage\<close> is
  \<open>(older_avg - recent_avg) / older_avg * 100\<close>, computed in doubles from the two
  averages, when the older average is positive, and 0 when it is 0; whose
  \<open>is_improvement\<close> holds exactly when the percentage exceeds 5; whose
  \<open>trend_direction\<close> is \<open>decreased\<close> then and \<open>increased\<close> otherwise; and whose priority
  is 3 when improving and 2 otherwise.  With a recent average of 40 and an older average
  of 100 the percentage is 60, an improvement.
\<close>

theorem analyze_improvements_spec:
  assumes "10 \<le> length ts"
    and "\<forall>t\<in>set ts. amount_of t \<in> \<int> \<and> - (2 ^ 31) \<le> amount_of t \<and> amount_of t < 2 ^ 31"
  shows "let recent = take (length ts div 2) ts;
             older = drop (length ts div 2) ts;
             recent_avg = round_double (sum_list (map amount_of recent) / real (length recent));
             older_avg = round_double (sum_list (map amount_of older) / real (length older))
         in \<exists>ins d pct. analyze_improvements env ts = Some ins
              \<and> ins_data ins = JDict d
              \<and> map_of d ''improvement_percentage'' = Some (JNum pct)
              \<and> (older_avg > 0 \<longrightarrow>
                    pct = round_double (round_double (round_double (older_avg - recent_avg) / older_avg) * 100))
              \<and> (older_avg = 0 \<longrightarrow> pct = 0)
              \<and> map_of d ''is_improvement'' = Some (JBool (pct > 5))
              \<and> map_of d ''trend_direction'' = Some (JStr (if pct > 5 then ''decreased'' else ''increased''))
              \<and> ins_priority ins = (if pct > 5 then 3 else 2)
              \<and> (recent_avg = 40 \<and> older_avg = 100 \<longrightarrow>
                    pct = 60 \<and> map_of d ''is_improvement'' = Some (JBool True)
                    \<and> map_of d ''trend_direction'' = Some (JStr ''decreased''))"
proof -
  let ?recent = "take (length ts div 2) ts" and ?older = "drop (length ts div 2) ts"
  note avg = average_of_nonempty[OF halves_nonempty(1)[OF assms(1)]]
    average_of_nonempty[OF halves_nonempty(2)[OF assms(1)]]
  from analyze_improvements_data[OF assms(1), of env]
  obtain ins d pct where *: "analyze_improvements env ts = Some ins" "ins_data ins = JDict d"
      "map_of d ''improvement_percentage'' = Some (JNum pct)"
      "pct = (if average_of ?older > 0
               then round_double (round_double (round_double
                      (average_of ?older - average_of ?recent) / average_of ?older) * 100)
               else 0)"
      "map_of d ''is_improvement'' = Some (JBool (pct > 5))"
      "map_of d ''trend_direction'' = Some (JStr (if pct > 5 then ''decreased'' else ''increased''))"
      "ins_priority ins = (if pct > 5 then 3 else 2)"
    by blast
  have "average_of ?recent = 40 \<and> average_of ?older = 100 \<longrightarrow> pct = 60"
    using *(4) percentage_40_100 by simp
  with * show ?thesis
    unfolding Let_def avg[symmetric]
    by (intro exI[of _ ins] exI[of _ d] exI[of _ pct]) auto
qed

text \<open>
  Ten transactions, the five recent ones of 40 each and the five older ones of 100 each,
  with no description from the AI Gateway: the percentage is 60, the insight is an
  improvement with direction \<open>decreased\<close> and priority 3.  Ten transactions of 4 each,
  but for the most recent one of 3: the averages are the doubles nearest to 3.8 and 4, and
  the percentage computed from them is the double 5.000000000000004, just above 5, so the
  insight is an improvement as well.
\<close>

theorem analyze_improvements_spec_witness:
  "(\<exists>ins d. analyze_improvements \<lparr> generate_insight_description = (\<lambda>d k. None), format_fixed = (\<lambda>n x. []) \<rparr> [\<lparr> tx_amount = Some 40, tx_timestamp = TsDatetime (Naive 0), tx_description = None \<rparr>,
      \<lparr> tx_amount = Some 40, tx_timestamp = TsDatetime (Naive 0), tx_description = None \<rparr>,
      \<lparr> tx_amount = Some 40, tx_timestamp = TsDatetime (Naive 0), tx_description = None \<rparr>,
      \<lparr> tx_amount = Some 40, tx_timestamp = TsDatetime (Naive 0), tx_description = None \<rparr>,
      \<lparr> tx_amount = Some 40, tx_timestamp = TsDatetime (Naive 0), tx_description = None \<rparr>,
      \<lparr> tx_amount = Some 100, tx_timestamp = TsDatetime (Naive 0), tx_description = None \<rparr>,
      \<lparr> tx_amount = Some 100, tx_timestamp = TsDatetime (Naive 0), tx_description = None \<rparr>,
      \<lparr> tx_amount = Some 100, tx_timestamp = TsDatetime (Naive 0), tx_description = None \<rparr>,
      \<lparr> tx_amount = Some 100, tx_timestamp = TsDatetime (Naive 0), tx_description = None \<rparr>,
      \<lparr> tx_amount = Some 100, tx_timestamp = TsDatetime (Naive 0), tx_description = None \<rparr>] = Some ins
      \<and> ins_data ins = JDict d
      \<and> map_of d ''improvement_percentage'' = Some (JNum 60)
      \<and> map_of d ''is_improvement'' = Some (JBool True)
      \<and> map_of d ''trend_direction'' = Some (JStr ''decreased'')
      \<and> ins_priority ins = 3)
   \<and> (\<exists>ins d. analyze_improvements \<lparr> generate_insight_description = (\<lambda>d k. None), format_fixed = (\<lambda>n x. []) \<rparr> [\<lparr> tx_amount = Some 3, tx_timestamp = TsDatetime (Naive 0), tx_description = None \<rparr>,
      \<lparr> tx_amount = Some 4, tx_timestamp = TsDatetime (Naive 0), tx_description = None \<rparr>,
      \<lparr> tx_amount = Some 4, tx_timestamp = TsDatetime (Naive 0), tx_description = None \<rparr>,
      \<lparr> tx_amount = Some 4, tx_timestamp = TsDatetime (Naive 0), tx_description = None \<rparr>,
      \<lparr> tx_amount = Some 4, tx_timestamp = TsDatetime (Naive 0), tx_description = None \<rparr>,
      \<lparr> tx_amount = Some 4, tx_timestamp = TsDatetime (Naive 0), tx_description = None \<rparr>,
      \<lparr> tx_amount = Some 4, tx_timestamp = TsDatetime (Naive 0), tx_description = None \<rparr>,
      \<lparr> tx_amount = Some 4, tx_timestamp = TsDatetime (Naive 0), tx_description = None \<rparr>,
      \<lparr> tx_amount = Some 4, tx_timestamp = TsDatetime (Naive 0), tx_description = None \<rparr>,
      \<lparr> tx_amount = Some 4, tx_timestamp = TsDatetime (Naive 0), tx_description = None \<rparr>] = Some ins
      \<and> ins_data ins = JDict d
      \<and> map_of d ''improvement_percentage'' = Some (JNum (5629499534213125 / 1125899906842624))
      \<and> map_of d ''is_improvement'' = Some (JBool True)
      \<and> map_of d ''trend_direction'' = Some (JStr ''decreased'')
      \<and> ins_priority ins = 3)"
proof -
  let ?env = "\<lparr> generate_insight_description = (\<lambda>d k. None), format_fixed = (\<lambda>n x. []) \<rparr>"
  let ?ts = "[\<lparr> tx_amount = Some 40, tx_timestamp = TsDatetime (Naive 0), tx_description = None \<rparr>,
      \<lparr> tx_amount = Some 40, tx_timestamp = TsDatetime (Naive 0), tx_description = None \<rparr>,
      \<lparr> tx_amount = Some 40, tx_timestamp = TsDatetime (Naive 0), tx_description = None \<rparr>,
      \<lparr> tx_amount = Some 40, tx_timestamp = TsDatetime (Naive 0), tx_description = None \<rparr>,
      \<lparr> tx_amount = Some 40, tx_timestamp = TsDatetime (Naive 0), tx_description = None \<rparr>,
      \<lparr> tx_amount = Some 100, tx_timestamp = TsDatetime (Naive 0), tx_description = None \<rparr>,
      \<lparr> tx_amount = Some 100, tx_timestamp = TsDatetime (Naive 0), tx_description = None \<rparr>,
      \<lparr> tx_amount = Some 100, tx_timestamp = TsDatetime (Naive 0), tx_description = None \<rparr>,
      \<lparr> tx_amount = Some 100, tx_timestamp = TsDatetime (Naive 0), tx_description = None \<rparr>,
      \<lparr> tx_amount = Some 100, tx_timestamp = TsDatetime (Naive 0), tx_description = None \<rparr>]"
  let ?us = "[\<lparr> tx_amount = Some 3, tx_timestamp = TsDatetime (Naive 0), tx_description = None \<rparr>,
      \<lparr> tx_amount = Some 4, tx_timestamp = TsDatetime (Naive 0), tx_description = None \<rparr>,
      \<lparr> tx_amount = Some 4, tx_timestamp = TsDatetime (Naive 0), tx_description = None \<rparr>,
      \<lparr> tx_amount = Some 4, tx_timestamp = TsDatetime (Naive 0), tx_description = None \<rparr>,
      \<lparr> tx_amount = Some 4, tx_timestamp = TsDatetime (Naive 0), tx_description = None \<rparr>,
      \<lparr> tx_amount = Some 4, tx_timestamp = TsDatetime (Naive 0), tx_description = None \<rparr>,
      \<lparr> tx_amount = Some 4, tx_timestamp = TsDatetime (Naive 0), tx_description = None \<rparr>,
      \<lparr> tx_amount = Some 4, tx_timestamp = TsDatetime (Naive 0), tx_description = None \<rparr>,
      \<lparr> tx_amount = Some 4, tx_timestamp = TsDatetime (Naive 0), tx_description = None \<rparr>,
      \<lparr> tx_amount = Some 4, tx_timestamp = TsDatetime (Naive 0), tx_description = None \<rparr>]"
  have len: "10 \<le> length ?ts" by simp
  have ints: "\<forall>t\<in>set ?ts. amount_of t \<in> \<int> \<and> - (2 ^ 31) \<le> amount_of t \<and> amount_of t < 2 ^ 31"
    by (simp add: amount_of_def)
  have r: "round_double (sum_list (map amount_of (take (length ?ts div 2) ?ts))
             / real (length (take (length ?ts div 2) ?ts))) = 40"
    by code_simp
  have o: "round_double (sum_list (map amount_of (drop (length ?ts div 2) ?ts))
             / real (length (drop (length ?ts div 2) ?ts))) = 100"
    by code_simp
  from analyze_improvements_spec[OF len ints, of ?env, unfolded Let_def r o]
  obtain ins d pct where *: "analyze_improvements ?env ?ts = Some ins" "ins_data ins = JDict d"
      "map_of d ''improvement_percentage'' = Some (JNum pct)"
      "pct = 60" "map_of d ''is_improvement'' = Some (JBool True)"
      "map_of d ''trend_direction'' = Some (JStr ''decreased'')"
      "ins_priority ins = (if pct > 5 then 3 else 2)"
    by auto
  then have first: "\<exists>ins d. analyze_improvements ?env ?ts = Some ins
      \<and> ins_data ins = JDict d
      \<and> map_of d ''improvement_percentage'' = Some (JNum 60)
      \<and> map_of d ''is_improvement'' = Some (JBool True)
      \<and> map_of d ''trend_direction'' = Some (JStr ''decreased'')
      \<and> ins_priority ins = 3"
    by (intro exI[of _ ins] exI[of _ d]) simp
  have len': "10 \<le> length ?us" by simp
  have ints': "\<forall>t\<in>set ?us. amount_of t \<in> \<int> \<and> - (2 ^ 31) \<le> amount_of t \<and> amount_of t < 2 ^ 31"
    by (simp add: amount_of_def)
  have r': "round_double (sum_list (map amount_of (take (length ?us div 2) ?us))
             / real (length (take (length ?us div 2) ?us))) = 4278419646001971 / 1125899906842624"
    by code_simp
  have o': "round_double (sum_list (map amount_of (drop (length ?us div 2) ?us))
             / real (length (drop (length ?us div 2) ?us))) = 4"
    by code_simp
  have p': "round_double (round_double (round_double (4 - 4278419646001971 / 1125899906842624) / 4) * 100)
      = 5629499534213125 / 1125899906842624"
    by code_simp
  from analyze_improvements_spec[OF len' ints', of ?env, unfolded Let_def r' o' p']
  obtain ins' d' pct' where **: "analyze_improvements ?env ?us = Some ins'" "ins_data ins' = JDict d'"
      "map_of d' ''improvement_percentage'' = Some (JNum pct')"
      "pct' = 5629499534213125 / 1125899906842624"
      "map_of d' ''is_improvement'' = Some (JBool (pct' > 5))"
      "map_of d' ''trend_direction'' = Some (JStr (if pct' > 5 then ''decreased'' else ''increased''))"
      "ins_priority ins' = (if pct' > 5 then 3 else 2)"
    by auto
  have gt: "pct' > 5" unfolding **(4) by simp
  from ** gt have second: "\<exists>ins d. analyze_improvements ?env ?us = Some ins
      \<and> ins_data ins = JDict d
      \<and> map_of d ''improvement_percentage'' = Some (JNum (5629499534213125 / 1125899906842624))
      \<and> map_of d ''is_improvement'' = Some (JBool True)
      \<and> map_of d ''trend_direction'' = Some (JStr ''decreased'')
      \<and> ins_priority ins = 3"
    by (intro exI[of _ ins'] exI[of _ d']) simp
  from first second show ?thesis by (rule conjI)
qed

section \<open>Properties of the alert checks\<close>

lemma and_then_ret [simp]: "and_then (ret x) f = f x"
  by (cases "f x") (simp add: and_then_def ret_def)

lemma and_then_throw [simp]: "and_then (throw e) f = throw e"
  by (simp add: and_then_def throw_def)

lemma try_except_ret [simp]: "try_except (ret x) h = ret x"
  by (simp add: try_except_def ret_def)

lemma try_except_throw [simp]: "try_except (throw e) h = h e"
  by (cases "h e") (simp add: try_except_def throw_def)

lemma guarded:
  "try_except m (\<lambda>e. ret []) = (Inr (case fst m of Inl e \<Rightarrow> [] | Inr xs \<Rightarrow> xs), snd m)"
  by (cases m) (auto simp: try_except_def ret_def split: sum.splits)

lemma and_then_Inr: "and_then (Inr x, evs) f = (fst (f x), evs @ snd (f x))"
  by (simp add: and_then_def split: prod.splits)

lemma get_user_alert_configs_eq:
  "get_user_alert_configs env username =
     (Inr (case db_alert_configs env username of Inl e \<Rightarrow> [] | Inr rows \<Rightarrow> rows),
      [DbAlertConfigs username])"
  by (simp add: get_user_alert_configs_def try_except_def extern_def ret_def split: sum.splits)

lemma check_balance_alerts_low:
  assumes "cfg_alert_type config = Some ''low_balance''"
    and "cfg_threshold_value config = Some threshold"
    and "cfg_id config = Some cid"
    and "db_user_balance env username = Inr balance"
    and "balance < threshold"
  shows "\<exists>a. check_balance_alerts env username [config] = (Inr [a], [DbUserBalance username])
           \<and> alert_type a = ''low_balance''"
proof -
  have sel: "configs_of_type ''low_balance'' [config] = ret [config]"
    using assms(1) by (simp add: item_def)
  obtain a where a: "low_balance_alert env balance config = ret [a]" "alert_type a = ''low_balance''"
    using assms(2,3,5) by (simp add: low_balance_alert_def item_def)
  have fe: "for_each (low_balance_alert env balance) [config] = ret [a]"
    by (simp add: a)
  have "balance_try env username [config] =
      and_then (extern (DbUserBalance username) (Inr balance))
        (\<lambda>current_balance. for_each (low_balance_alert env current_balance) [config])"
    unfolding balance_try_def sel by (simp add: assms(4))
  also have "\<dots> = (Inr [a], [DbUserBalance username])"
    unfolding extern_def and_then_Inr fe by (simp add: ret_def)
  finally have "check_balance_alerts env username [config] = (Inr [a], [DbUserBalance username])"
    by (simp add: check_balance_alerts_def try_except_def)
  with a(2) show ?thesis by blast
qed

text \<open>
  Claim C9.  Whatever the username, the preferences, the stored alert configurations and
  the balance, \<open>check_alerts\<close> on an empty transaction list returns the empty list and
  makes no call at all: the configurations are not read, the balance is not queried and
  the AI Gateway is not asked.  In particular, when the user's only active configuration
  is a \<open>low_balance\<close> one and the balance is below its threshold, the balance check on
  that configuration yields a \<open>low_balance\<close> alert, and \<open>check_alerts\<close> on the empty
  list still returns no alert.
\<close>

theorem check_alerts_no_transactions:
  "check_alerts env [] username prefs = (Inr [], [])
   \<and> (db_alert_configs env username = Inr [config]
        \<and> cfg_alert_type config = Some ''low_balance''
        \<and> cfg_threshold_value config = Some threshold
        \<and> cfg_id config = Some cid
        \<and> db_user_balance env username = Inr balance
        \<and> balance < threshold
      \<longrightarrow> (\<exists>a. check_balance_alerts env username [config] = (Inr [a], [DbUserBalance username])
                \<and> alert_type a = ''low_balance'')
          \<and> check_alerts env [] username prefs = (Inr [], []))"
proof -
  have "check_alerts env [] username prefs = (Inr [], [])"
    by (simp add: check_alerts_def) (simp add: ret_def)
  with check_balance_alerts_low[of config threshold cid env username balance]
  show ?thesis by blast
qed

text \<open>
  A user whose only active configuration is a low-balance threshold of 500 and whose
  balance is 120: the balance check alone raises the alert, \<open>check_alerts\<close> on an empty
  transaction list returns nothing and makes no call.
\<close>

theorem check_alerts_no_transactions_witness:
  "map alert_type (case fst (check_balance_alerts \<lparr> now = 1728036000000000,
       db_alert_configs = (\<lambda>u. Inr
         [\<lparr> cfg_id = Some 2, cfg_alert_type = Some ''low_balance'',
            cfg_alert_name = Some ''Low balance'', cfg_threshold_value = Some 500,
            cfg_threshold_period = Some ''daily'' \<rparr>]),
       db_user_balance = (\<lambda>u. Inr 120),
       ai_analyze_data = (\<lambda>ts kind. None),
       format_2f = (\<lambda>x. ''?'') \<rparr> ''testuser''
        [\<lparr> cfg_id = Some 2, cfg_alert_type = Some ''low_balance'',
            cfg_alert_name = Some ''Low balance'', cfg_threshold_value = Some 500,
            cfg_threshold_period = Some ''daily'' \<rparr>]) of Inl e \<Rightarrow> [] | Inr alerts \<Rightarrow> alerts)
     = [''low_balance'']
   \<and> check_alerts \<lparr> now = 1728036000000000,
       db_alert_configs = (\<lambda>u. Inr
         [\<lparr> cfg_id = Some 2, cfg_alert_type = Some ''low_balance'',
            cfg_alert_name = Some ''Low balance'', cfg_threshold_value = Some 500,
            cfg_threshold_period = Some ''daily'' \<rparr>]),
       db_user_balance = (\<lambda>u. Inr 120),
       ai_analyze_data = (\<lambda>ts kind. None),
       format_2f = (\<lambda>x. ''?'') \<rparr> [] ''testuser'' [] = (Inr [], [])"
proof -
  let ?env = "\<lparr> now = 1728036000000000,
       db_alert_configs = (\<lambda>u. Inr
         [\<lparr> cfg_id = Some 2, cfg_alert_type = Some ''low_balance'',
            cfg_alert_name = Some ''Low balance'', cfg_threshold_value = Some 500,
            cfg_threshold_period = Some ''daily'' \<rparr>]),
       db_user_balance = (\<lambda>u. Inr 120),
       ai_analyze_data = (\<lambda>ts kind. None),
       format_2f = (\<lambda>x. ''?'') \<rparr>"
  let ?cfg = "\<lparr> cfg_id = Some 2, cfg_alert_type = Some ''low_balance'',
            cfg_alert_name = Some ''Low balance'', cfg_threshold_value = Some 500,
            cfg_threshold_period = Some ''daily'' \<rparr>"
  note t = check_alerts_no_transactions[of ?env "''testuser''" "[]" ?cfg 500 2 120]
  have h: "db_alert_configs ?env ''testuser'' = Inr [?cfg]
        \<and> cfg_alert_type ?cfg = Some ''low_balance''
        \<and> cfg_threshold_value ?cfg = Some 500
        \<and> cfg_id ?cfg = Some 2
        \<and> db_user_balance ?env ''testuser'' = Inr 120
        \<and> (120::real) < 500"
    by simp
  from mp[OF t[THEN conjunct2] h]
  obtain a where a: "check_balance_alerts ?env ''testuser'' [?cfg] = (Inr [a], [DbUserBalance ''testuser''])"
    "alert_type a = ''low_balance''"
    and e: "check_alerts ?env [] ''testuser'' [] = (Inr [], [])"
    by blast
  have "map alert_type (case fst (check_balance_alerts ?env ''testuser'' [?cfg]) of Inl e \<Rightarrow> [] | Inr alerts \<Rightarrow> alerts)
     = [''low_balance'']"
    by (simp add: a)
  with e show ?thesis by (intro conjI)
qed

text \<open>
  Claim C7.  On a non-empty transaction list \<open>check_alerts\<close> never raises and returns
  the concatenation, in order, of what the five checks contribute (spending threshold,
  category budget, unusual spending, low balance, improvement), all evaluated on the same
  configurations.  A check contributes the alerts of its \<open>try\<close> block, and the empty
  list when the block raises; the contribution of each check depends on its own block
  alone, and the calls of all five blocks are made whichever of them raise.
\<close>

theorem check_alerts_isolation:
  assumes "transactions \<noteq> []"
  shows "let cfgs = (case db_alert_configs env username of Inl e \<Rightarrow> [] | Inr rows \<Rightarrow> rows);
             t1 = spending_threshold_try env transactions username cfgs;
             t2 = category_budget_try env transactions username cfgs;
             t3 = unusual_spending_try env transactions username cfgs;
             t4 = balance_try env username cfgs;
             t5 = improvement_try env transactions username prefs
         in check_alerts env transactions username prefs =
              (Inr ((case fst t1 of Inl e \<Rightarrow> [] | Inr alerts \<Rightarrow> alerts) @
                    (case fst t2 of Inl e \<Rightarrow> [] | Inr alerts \<Rightarrow> alerts) @
                    (case fst t3 of Inl e \<Rightarrow> [] | Inr alerts \<Rightarrow> alerts) @
                    (case fst t4 of Inl e \<Rightarrow> [] | Inr alerts \<Rightarrow> alerts) @
                    (case fst t5 of Inl e \<Rightarrow> [] | Inr alerts \<Rightarrow> alerts)),
               DbAlertConfigs username # snd t1 @ snd t2 @ snd t3 @ snd t4 @ snd t5)"
  using assms
  unfolding check_alerts_def check_spending_threshold_alerts_def check_category_budget_alerts_def
    check_unusual_spending_alerts_def check_balance_alerts_def check_improvement_alerts_def
    guarded get_user_alert_configs_eq Let_def
  by (simp add: and_then_Inr) (simp add: ret_def try_except_def)

text \<open>
  A user with a daily spending threshold of 100 and a low-balance configuration, one
  transaction of 150 made today, and a database that fails on the balance query: the
  balance block raises, the spending-threshold alert is still returned, and both database
  calls were made.
\<close>

theorem check_alerts_isolation_witness:
  "[\<lparr> tx_amount = Some 150, tx_timestamp = TsDatetime (Naive 1728032400000000),
          tx_description = None \<rparr>] \<noteq> []
   \<and> fst (balance_try \<lparr> now = 1728036000000000,
       db_alert_configs = (\<lambda>u. Inr
         [\<lparr> cfg_id = Some 1, cfg_alert_type = Some ''spending_threshold'',
            cfg_alert_name = Some ''Daily limit'', cfg_threshold_value = Some 100,
            cfg_threshold_period = Some ''daily'' \<rparr>,
          \<lparr> cfg_id = Some 2, cfg_alert_type = Some ''low_balance'',
            cfg_alert_name = Some ''Low balance'', cfg_threshold_value = Some 500,
            cfg_threshold_period = Some ''daily'' \<rparr>]),
       db_user_balance = (\<lambda>u. Inl SQLAlchemyError),
       ai_analyze_data = (\<lambda>ts kind. None),
       format_2f = (\<lambda>x. ''?'') \<rparr> ''testuser'' [\<lparr> cfg_id = Some 1, cfg_alert_type = Some ''spending_threshold'',
            cfg_alert_name = Some ''Daily limit'', cfg_threshold_value = Some 100,
            cfg_threshold_period = Some ''daily'' \<rparr>,
          \<lparr> cfg_id = Some 2, cfg_alert_type = Some ''low_balance'',
            cfg_alert_name = Some ''Low balance'', cfg_threshold_value = Some 500,
            cfg_threshold_period = Some ''daily'' \<rparr>]) = Inl SQLAlchemyError
   \<and> map alert_type (case fst (check_alerts \<lparr> now = 1728036000000000,
       db_alert_configs = (\<lambda>u. Inr
         [\<lparr> cfg_id = Some 1, cfg_alert_type = Some ''spending_threshold'',
            cfg_alert_name = Some ''Daily limit'', cfg_threshold_value = Some 100,
            cfg_threshold_period = Some ''daily'' \<rparr>,
          \<lparr> cfg_id = Some 2, cfg_alert_type = Some ''low_balance'',
            cfg_alert_name = Some ''Low balance'', cfg_threshold_value = Some 500,
            cfg_threshold_period = Some ''daily'' \<rparr>]),
       db_user_balance = (\<lambda>u. Inl SQLAlchemyError),
       ai_analyze_data = (\<lambda>ts kind. None),
       format_2f = (\<lambda>x. ''?'') \<rparr> [\<lparr> tx_amount = Some 150, tx_timestamp = TsDatetime (Naive 1728032400000000),
          tx_description = None \<rparr>] ''testuser'' []) of Inl e \<Rightarrow> [] | Inr alerts \<Rightarrow> alerts)
       = [''spending_threshold'']
   \<and> snd (check_alerts \<lparr> now = 1728036000000000,
       db_alert_configs = (\<lambda>u. Inr
         [\<lparr> cfg_id = Some 1, cfg_alert_type = Some ''spending_threshold'',
            cfg_alert_name = Some ''Daily limit'', cfg_threshold_value = Some 100,
            cfg_threshold_period = Some ''daily'' \<rparr>,
          \<lparr> cfg_id = Some 2, cfg_alert_type = Some ''low_balance'',
            cfg_alert_name = Some ''Low balance'', cfg_threshold_value = Some 500,
            cfg_threshold_period = Some ''daily'' \<rparr>]),
       db_user_balance = (\<lambda>u. Inl SQLAlchemyError),
       ai_analyze_data = (\<lambda>ts kind. None),
       format_2f = (\<lambda>x. ''?'') \<rparr> [\<lparr> tx_amount = Some 150, tx_timestamp = TsDatetime (Naive 1728032400000000),
          tx_description = None \<rparr>] ''testuser'' []) = [DbAlertConfigs ''testuser'', DbUserBalance ''testuser'']"
proof -
  let ?env = "\<lparr> now = 1728036000000000,
       db_alert_configs = (\<lambda>u. Inr
         [\<lparr> cfg_id = Some 1, cfg_alert_type = Some ''spending_threshold'',
            cfg_alert_name = Some ''Daily limit'', cfg_threshold_value = Some 100,
            cfg_threshold_period = Some ''daily'' \<rparr>,
          \<lparr> cfg_id = Some 2, cfg_alert_type = Some ''low_balance'',
            cfg_alert_name = Some ''Low balance'', cfg_threshold_value = Some 500,
            cfg_threshold_period = Some ''daily'' \<rparr>]),
       db_user_balance = (\<lambda>u. Inl SQLAlchemyError),
       ai_analyze_data = (\<lambda>ts kind. None),
       format_2f = (\<lambda>x. ''?'') \<rparr>"
  let ?cfgs = "[\<lparr> cfg_id = Some 1, cfg_alert_type = Some ''spending_threshold'',
            cfg_alert_name = Some ''Daily limit'', cfg_threshold_value = Some 100,
            cfg_threshold_period = Some ''daily'' \<rparr>,
          \<lparr> cfg_id = Some 2, cfg_alert_type = Some ''low_balance'',
            cfg_alert_name = Some ''Low balance'', cfg_threshold_value = Some 500,
            cfg_threshold_period = Some ''daily'' \<rparr>]"
  let ?ts = "[\<lparr> tx_amount = Some 150, tx_timestamp = TsDatetime (Naive 1728032400000000),
          tx_description = None \<rparr>]"
  have ne: "?ts \<noteq> []" by simp
  have c: "(case db_alert_configs ?env ''testuser'' of Inl e \<Rightarrow> [] | Inr rows \<Rightarrow> rows) = ?cfgs"
    by simp
  have t1: "map alert_type (case fst (spending_threshold_try ?env ?ts ''testuser'' ?cfgs) of Inl e \<Rightarrow> [] | Inr alerts \<Rightarrow> alerts) = [''spending_threshold'']"
    "snd (spending_threshold_try ?env ?ts ''testuser'' ?cfgs) = []"
    by code_simp+
  have t2: "fst (category_budget_try ?env ?ts ''testuser'' ?cfgs) = Inr []"
    "snd (category_budget_try ?env ?ts ''testuser'' ?cfgs) = []"
    by code_simp+
  have t3: "fst (unusual_spending_try ?env ?ts ''testuser'' ?cfgs) = Inr []"
    "snd (unusual_spending_try ?env ?ts ''testuser'' ?cfgs) = []"
    by code_simp+
  have t4: "fst (balance_try ?env ''testuser'' ?cfgs) = Inl SQLAlchemyError"
    "snd (balance_try ?env ''testuser'' ?cfgs) = [DbUserBalance ''testuser'']"
    by code_simp+
  have t5: "fst (improvement_try ?env ?ts ''testuser'' []) = Inr []"
    "snd (improvement_try ?env ?ts ''testuser'' []) = []"
    by code_simp+
  note iso = check_alerts_isolation[OF ne, of ?env "''testuser''" "[]", unfolded Let_def c]
  have r: "map alert_type (case fst (check_alerts ?env ?ts ''testuser'' []) of Inl e \<Rightarrow> [] | Inr alerts \<Rightarrow> alerts)
       = [''spending_threshold'']"
    unfolding iso using t1(1) by (simp only: fst_conv sum.case t2 t3 t4 t5 append_Nil2 append_Nil)
  have e: "snd (check_alerts ?env ?ts ''testuser'' []) = [DbAlertConfigs ''testuser'', DbUserBalance ''testuser'']"
    unfolding iso by (simp only: snd_conv t1 t2 t3 t4 t5 append_Nil2 append_Nil)
  from ne t4(1) r e show ?thesis by (intro conjI)
qed

section \<open>Properties of the spending calculations\<close>

lemma naive_time_SomeD:
  "naive_time t = Some n \<Longrightarrow>
     tx_timestamp t = TsDatetime (Naive n) \<or> tx_timestamp t = TsText (Some (Naive n))"
  by (auto simp: naive_time_def split: ts_field.splits datetime.splits option.splits)

lemma step_naive:
  assumes "naive_time t = Some n"
  shows "and_then (trans_date t) (\<lambda>d. and_then (on_or_after d start) f) = f (n \<ge> start)"
  using naive_time_SomeD[OF assms]
  by (auto simp: trans_date_def on_or_after_def)

lemma sum_in_window_naive:
  assumes "\<forall>t\<in>set ts. naive_time t \<noteq> None"
  shows "sum_in_window start counts ts acc =
     ret (acc + sum_list (map amount_of (filter (\<lambda>t. in_window start t \<and> counts t) ts)))"
  using assms
proof (induction ts arbitrary: acc)
  case Nil
  then show ?case by simp
next
  case (Cons t ts)
  then obtain n where n: "naive_time t = Some n" by auto
  from Cons.prems have rest: "\<forall>t\<in>set ts. naive_time t \<noteq> None" by simp
  show ?case
    by (simp add: step_naive[OF n] Cons.IH[OF rest] in_window_def n add.assoc)
qed

lemma calculate_spending_naive:
  assumes "\<forall>t\<in>set ts. naive_time t \<noteq> None"
  shows "calculate_spending_for_period env ts period =
     ret (sum_list (map amount_of (filter (in_window (period_start (now env) period)) ts)))"
  by (simp add: calculate_spending_for_period_def sum_in_window_naive[OF assms])

lemma calculate_category_spending_naive:
  assumes "\<forall>t\<in>set ts. naive_time t \<noteq> None"
  shows "calculate_category_spending env ts category period =
     ret (sum_list (map amount_of
       (filter (\<lambda>t. in_window (period_start (now env) period) t
                     \<and> any_in (keywords_of category) (transaction_desc t)) ts)))"
  by (simp add: calculate_category_spending_def sum_in_window_naive[OF assms])

lemma sum_in_window_no_count:
  assumes "\<forall>t\<in>set ts. \<not> counts t"
  shows "sum_in_window start counts ts acc = ret acc \<or> (\<exists>e. sum_in_window start counts ts acc = throw e)"
  using assms
proof (induction ts arbitrary: acc)
  case Nil
  then show ?case by simp
next
  case (Cons t ts)
  then have ih: "sum_in_window start counts ts acc = ret acc
      \<or> (\<exists>e. sum_in_window start counts ts acc = throw e)" and nc: "\<not> counts t"
    by simp_all
  show ?case
  proof (cases "naive_time t")
    case None
    then have "\<exists>e. and_then (trans_date t) (\<lambda>d. and_then (on_or_after d start)
        (\<lambda>inside. sum_in_window start counts ts (if inside \<and> counts t then acc + amount_of t else acc))) = throw e"
      by (auto simp: naive_time_def trans_date_def on_or_after_def
          split: ts_field.splits datetime.splits option.splits)
    then show ?thesis by simp
  next
    case (Some n)
    with ih nc show ?thesis by (simp add: step_naive[OF Some])
  qed
qed

lemma keywords_nonempty:
  assumes "category \<noteq> []"
  shows "[] \<notin> set (keywords_of category)"
proof -
  have "lower category \<noteq> []" using assms by (simp add: lower_def)
  moreover have "\<And>k ks. map_of budget_category_keywords k = Some ks \<Longrightarrow> [] \<notin> set ks"
    by (auto simp: budget_category_keywords_def split: if_splits)
  ultimately show ?thesis
    by (auto simp: keywords_of_def split: option.splits)
qed

lemma no_description_no_match:
  assumes "category \<noteq> []" "tx_description t = None"
  shows "\<not> any_in (keywords_of category) (transaction_desc t)"
  using keywords_nonempty[OF assms(1)] assms(2)
  by (auto simp: any_in_def list_ex_iff transaction_desc_def lower_def)

lemma category_spending_no_description:
  assumes "category \<noteq> []" "\<forall>t\<in>set ts. tx_description t = None"
  shows "calculate_category_spending env ts category period = ret 0"
proof -
  have "\<forall>t\<in>set ts. \<not> any_in (keywords_of category) (transaction_desc t)"
    using no_description_no_match[OF assms(1)] assms(2) by simp
  from sum_in_window_no_count[OF this, of "period_start (now env) period" 0]
  show ?thesis by (auto simp: calculate_category_spending_def)
qed

text \<open>
  What the spending-threshold check does for one complete configuration when every
  transaction carries a naive timestamp, as the rows of the ledger do: it adds up the
  amounts inside the window and alerts exactly when the sum exceeds the threshold, with
  the excess in the alert's data.
\<close>

lemma check_spending_threshold_naive:
  assumes "\<forall>t\<in>set ts. naive_time t \<noteq> None"
    and "spending = sum_list (map amount_of (filter (in_window (period_start (now env) period)) ts))"
  shows "check_spending_threshold_alerts env ts username
           [\<lparr> cfg_id = Some cid, cfg_alert_type = Some ''spending_threshold'',
              cfg_alert_name = Some name, cfg_threshold_value = Some threshold,
              cfg_threshold_period = Some period \<rparr>]
         = ret (if spending > threshold
                then [\<lparr> alert_type = ''spending_threshold'',
                        alert_title = ''Spending Alert: '' @ name,
                        alert_description = JStr
                          (''You've spent $'' @ format_2f env spending @ '' this '' @ period
                             @ '', exceeding your threshold of $'' @ format_2f env threshold),
                        alert_data = JDict
                          [(''threshold_value'', JNum threshold),
                           (''actual_spending'', JNum spending),
                           (''period'', JStr period),
                           (''excess_amount'', JNum (spending - threshold))],
                        alert_priority = 3,
                        alert_config_id = Some cid \<rparr>]
                else [])"
  by (simp add: check_spending_threshold_alerts_def spending_threshold_try_def item_def
      spending_threshold_alert_def calculate_spending_naive[OF assms(1)] assms(2))

lemma period_start_windows:
  "period_start n ''daily'' = n - n mod 86400000000"
  "period_start n ''weekly'' = n - 7 * 86400000000"
  "period_start n ''monthly'' = n - 30 * 86400000000"
  "p \<noteq> ''daily'' \<Longrightarrow> p \<noteq> ''weekly'' \<Longrightarrow> p \<noteq> ''monthly'' \<Longrightarrow> period_start n p = n - 86400000000"
  by (simp_all add: period_start_def microseconds_per_day_def)

text \<open>
  Claim C6 at the input of its own example.  The configuration is a daily threshold of
  100.  The two transactions, of 100 and 50, were made today at 09:00 and 09:30 and the
  clock reads 10:00; their timestamps are texts in UTC notation (ending in \<open>Z\<close>), the
  form the check converts with \<open>replace("Z", "+00:00")\<close>.  The converted value is aware,
  its comparison with the naive start of the window raises \<open>TypeError\<close>, the handler of
  \<open>_calculate_spending_for_period\<close> returns 0, and no alert is produced.  With the same
  two transactions carrying naive timestamps the sum is 150 and there is one alert, whose
  excess is 50.
\<close>

theorem spending_threshold_utc_text:
  "calculate_spending_for_period \<lparr> now = 1728036000000000, db_alert_configs = (\<lambda>u. Inr []),
       db_user_balance = (\<lambda>u. Inr 0), ai_analyze_data = (\<lambda>ts kind. None),
       format_2f = (\<lambda>x. ''?'') \<rparr>
      [\<lparr> tx_amount = Some 100, tx_timestamp = TsText (Some (Aware 1728032400000000 0)),
         tx_description = None \<rparr>,
       \<lparr> tx_amount = Some 50, tx_timestamp = TsText (Some (Aware 1728034200000000 0)),
         tx_description = None \<rparr>] ''daily'' = (Inr 0, [])
   \<and> check_spending_threshold_alerts \<lparr> now = 1728036000000000, db_alert_configs = (\<lambda>u. Inr []),
       db_user_balance = (\<lambda>u. Inr 0), ai_analyze_data = (\<lambda>ts kind. None),
       format_2f = (\<lambda>x. ''?'') \<rparr>
      [\<lparr> tx_amount = Some 100, tx_timestamp = TsText (Some (Aware 1728032400000000 0)),
         tx_description = None \<rparr>,
       \<lparr> tx_amount = Some 50, tx_timestamp = TsText (Some (Aware 1728034200000000 0)),
         tx_description = None \<rparr>] ''testuser''
      [\<lparr> cfg_id = Some 1, cfg_alert_type = Some ''spending_threshold'',
         cfg_alert_name = Some ''Daily limit'', cfg_threshold_value = Some 100,
         cfg_threshold_period = Some ''daily'' \<rparr>] = (Inr [], [])
   \<and> map alert_data (case fst (check_spending_threshold_alerts \<lparr> now = 1728036000000000, db_alert_configs = (\<lambda>u. Inr []),
       db_user_balance = (\<lambda>u. Inr 0), ai_analyze_data = (\<lambda>ts kind. None),
       format_2f = (\<lambda>x. ''?'') \<rparr>
      [\<lparr> tx_amount = Some 100, tx_timestamp = TsDatetime (Naive 1728032400000000),
         tx_description = None \<rparr>,
       \<lparr> tx_amount = Some 50, tx_timestamp = TsDatetime (Naive 1728034200000000),
         tx_description = None \<rparr>] ''testuser''
      [\<lparr> cfg_id = Some 1, cfg_alert_type = Some ''spending_threshold'',
         cfg_alert_name = Some ''Daily limit'', cfg_threshold_value = Some 100,
         cfg_threshold_period = Some ''daily'' \<rparr>]) of Inl e \<Rightarrow> [] | Inr alerts \<Rightarrow> alerts)
     = [JDict [(''threshold_value'', JNum 100), (''actual_spending'', JNum 150),
               (''period'', JStr ''daily''), (''excess_amount'', JNum 50)]]"
  by (intro conjI; code_simp)

lemma category_budget_alert_quiet:
  assumes "\<forall>t\<in>set ts. tx_description t = None"
    and "cfg_alert_name c \<noteq> Some []"
    and "\<forall>th. cfg_threshold_value c = Some th \<longrightarrow> 0 \<le> th"
  shows "category_budget_alert env ts c = ret [] \<or> (\<exists>e. category_budget_alert env ts c = throw e)"
proof -
  let ?category = "case cfg_alert_name c of None \<Rightarrow> ''Unknown Category'' | Some n \<Rightarrow> n"
  from assms(2) have "?category \<noteq> []" by (cases "cfg_alert_name c") auto
  from category_spending_no_description[OF this assms(1)]
  have z: "calculate_category_spending env ts ?category period = ret 0" for period .
  show ?thesis
  proof (cases "cfg_threshold_value c")
    case None
    then show ?thesis by (auto simp: category_budget_alert_def item_def)
  next
    case th: (Some th)
    with assms(3) have "0 \<le> th" by simp
    then show ?thesis
      by (cases "cfg_threshold_period c") (auto simp: category_budget_alert_def item_def th z)
  qed
qed

lemma for_each_quiet:
  assumes "\<forall>x\<in>set xs. f x = ret [] \<or> (\<exists>e. f x = throw e)"
  shows "for_each f xs = ret [] \<or> (\<exists>e. for_each f xs = throw e)"
  using assms by (induction xs) auto

lemma configs_of_type_result:
  "(\<exists>e. configs_of_type kind cfgs = throw e) \<or>
   configs_of_type kind cfgs = ret (filter (\<lambda>c. cfg_alert_type c = Some kind) cfgs)"
  by (induction cfgs) (auto simp: item_def split: option.splits)

lemma check_category_budget_quiet:
  assumes "\<forall>t\<in>set ts. tx_description t = None"
    and "\<forall>c\<in>set cfgs. cfg_alert_type c = Some ''category_budget'' \<longrightarrow>
           cfg_alert_name c \<noteq> Some [] \<and> (\<forall>th. cfg_threshold_value c = Some th \<longrightarrow> 0 \<le> th)"
  shows "check_category_budget_alerts env ts username cfgs = ret []"
proof -
  let ?sel = "filter (\<lambda>c. cfg_alert_type c = Some ''category_budget'') cfgs"
  have "\<forall>c\<in>set ?sel. category_budget_alert env ts c = ret []
          \<or> (\<exists>e. category_budget_alert env ts c = throw e)"
  proof
    fix c assume "c \<in> set ?sel"
    with assms(2) have "cfg_alert_name c \<noteq> Some []"
      "\<forall>th. cfg_threshold_value c = Some th \<longrightarrow> 0 \<le> th" by auto
    with assms(1) show "category_budget_alert env ts c = ret []
          \<or> (\<exists>e. category_budget_alert env ts c = throw e)"
      by (rule category_budget_alert_quiet)
  qed
  from for_each_quiet[OF this] configs_of_type_result[of "''category_budget''" cfgs]
  show ?thesis
    by (auto simp: check_category_budget_alerts_def category_budget_try_def)
qed

text \<open>
  Claim C10 as stated says that a transaction without a \<open>description\<close> never adds to a
  category sum.  For a configuration whose \<open>alert_name\<close> is the empty text the keyword
  list is the empty text alone, which is contained in every description, also in the
  empty one that stands in for a missing field: a ledger row of 150 made today then
  exceeds a budget of 100 and the alert is emitted.
\<close>

theorem category_budget_empty_name_counterexample:
  "calculate_category_spending \<lparr> now = 1728036000000000, db_alert_configs = (\<lambda>u. Inr []),
       db_user_balance = (\<lambda>u. Inr 0), ai_analyze_data = (\<lambda>ts kind. None),
       format_2f = (\<lambda>x. ''?'') \<rparr>
      [\<lparr> tx_amount = Some 150, tx_timestamp = TsDatetime (Naive 1728032400000000),
         tx_description = None \<rparr>] [] ''daily'' = (Inr 150, [])
   \<and> map alert_type (case fst (check_category_budget_alerts \<lparr> now = 1728036000000000, db_alert_configs = (\<lambda>u. Inr []),
       db_user_balance = (\<lambda>u. Inr 0), ai_analyze_data = (\<lambda>ts kind. None),
       format_2f = (\<lambda>x. ''?'') \<rparr>
      [\<lparr> tx_amount = Some 150, tx_timestamp = TsDatetime (Naive 1728032400000000),
         tx_description = None \<rparr>] ''testuser''
      [\<lparr> cfg_id = Some 3, cfg_alert_type = Some ''category_budget'',
         cfg_alert_name = Some [], cfg_threshold_value = Some 100,
         cfg_threshold_period = Some ''daily'' \<rparr>]) of Inl e \<Rightarrow> [] | Inr alerts \<Rightarrow> alerts) = [''category_budget'']"
  by (intro conjI; code_simp)

text \<open>
  Claim C10, amended.  When every timestamp is a naive \<open>datetime\<close>, the category sum is
  the sum of the amounts of the transactions inside the window whose lowercased
  description (the empty text when the field is missing) contains one of the category's
  keywords, taken from the fixed table or else the lowercased category name alone.  When
  the category name is not empty, transactions without a \<open>description\<close> add nothing:
  over such transactions, as the rows of the ledger are, the category sum is 0, and if
  every \<open>category_budget\<close> configuration has a non-empty name and a threshold that is
  not negative, no \<open>category_budget\<close> alert is emitted.
\<close>

theorem category_budget_no_description:
  "((\<forall>t\<in>set ts. naive_time t \<noteq> None) \<longrightarrow>
      calculate_category_spending env ts category period =
        (Inr (sum_list (map amount_of
           (filter (\<lambda>t. in_window (period_start (now env) period) t
                         \<and> (\<exists>k\<in>set (keywords_of category). sublist k (transaction_desc t))) ts))), []))
   \<and> (category \<noteq> [] \<and> (\<forall>t\<in>set ts. tx_description t = None) \<longrightarrow>
        calculate_category_spending env ts category period = (Inr 0, []))
   \<and> ((\<forall>t\<in>set ts. tx_description t = None) \<and>
       (\<forall>c\<in>set cfgs. cfg_alert_type c = Some ''category_budget'' \<longrightarrow>
           cfg_alert_name c \<noteq> Some [] \<and> (\<forall>th. cfg_threshold_value c = Some th \<longrightarrow> 0 \<le> th)) \<longrightarrow>
        check_category_budget_alerts env ts username cfgs = (Inr [], []))"
  using calculate_category_spending_naive[of ts env category period]
    category_spending_no_description[of category ts env period]
    check_category_budget_quiet[of ts cfgs env username]
  by (simp add: ret_def any_in_def list_ex_iff)

text \<open>
  A purchase of 5 at "Starbucks #12" and a rent payment of 900, both made today: the
  \<open>Coffee\<close> sum is 5.  A ledger row of 150 made today, without description: the
  \<open>Coffee\<close> sum is 0 and a \<open>Coffee\<close> budget of 100 raises no alert.
\<close>

theorem category_budget_no_description_witness:
  "calculate_category_spending \<lparr> now = 1728036000000000, db_alert_configs = (\<lambda>u. Inr []),
       db_user_balance = (\<lambda>u. Inr 0), ai_analyze_data = (\<lambda>ts kind. None),
       format_2f = (\<lambda>x. ''?'') \<rparr>
      [\<lparr> tx_amount = Some 5, tx_timestamp = TsDatetime (Naive 1728032400000000),
         tx_description = Some ''Starbucks #12'' \<rparr>,
       \<lparr> tx_amount = Some 900, tx_timestamp = TsDatetime (Naive 1728034200000000),
         tx_description = Some ''Rent'' \<rparr>] ''Coffee'' ''daily'' = (Inr 5, [])
   \<and> calculate_category_spending \<lparr> now = 1728036000000000, db_alert_configs = (\<lambda>u. Inr []),
       db_user_balance = (\<lambda>u. Inr 0), ai_analyze_data = (\<lambda>ts kind. None),
       format_2f = (\<lambda>x. ''?'') \<rparr>
      [\<lparr> tx_amount = Some 150, tx_timestamp = TsDatetime (Naive 1728032400000000),
         tx_description = None \<rparr>] ''Coffee'' ''daily'' = (Inr 0, [])
   \<and> check_category_budget_alerts \<lparr> now = 1728036000000000, db_alert_configs = (\<lambda>u. Inr []),
       db_user_balance = (\<lambda>u. Inr 0), ai_analyze_data = (\<lambda>ts kind. None),
       format_2f = (\<lambda>x. ''?'') \<rparr>
      [\<lparr> tx_amount = Some 150, tx_timestamp = TsDatetime (Naive 1728032400000000),
         tx_description = None \<rparr>] ''testuser''
      [\<lparr> cfg_id = Some 3, cfg_alert_type = Some ''category_budget'',
         cfg_alert_name = Some ''Coffee'', cfg_threshold_value = Some 100,
         cfg_threshold_period = Some ''daily'' \<rparr>] = (Inr [], [])"
proof -
  let ?env = "\<lparr> now = 1728036000000000, db_alert_configs = (\<lambda>u. Inr []),
       db_user_balance = (\<lambda>u. Inr 0), ai_analyze_data = (\<lambda>ts kind. None),
       format_2f = (\<lambda>x. ''?'') \<rparr>"
  let ?ts2 = "[\<lparr> tx_amount = Some 5, tx_timestamp = TsDatetime (Naive 1728032400000000),
         tx_description = Some ''Starbucks #12'' \<rparr>,
       \<lparr> tx_amount = Some 900, tx_timestamp = TsDatetime (Naive 1728034200000000),
         tx_description = Some ''Rent'' \<rparr>]"
  let ?ts1 = "[\<lparr> tx_amount = Some 150, tx_timestamp = TsDatetime (Naive 1728032400000000),
         tx_description = None \<rparr>]"
  let ?cfgs = "[\<lparr> cfg_id = Some 3, cfg_alert_type = Some ''category_budget'',
         cfg_alert_name = Some ''Coffee'', cfg_threshold_value = Some 100,
         cfg_threshold_period = Some ''daily'' \<rparr>]"
  note t2 = category_budget_no_description[of ?ts2 ?env "''Coffee''" "''daily''"]
  note t1 = category_budget_no_description[of ?ts1 ?env "''Coffee''" "''daily''" ?cfgs "''testuser''"]
  have n2: "\<forall>t\<in>set ?ts2. naive_time t \<noteq> None" by (simp add: naive_time_def)
  have s2: "sum_list (map amount_of
           (filter (\<lambda>t. in_window (period_start (now ?env) ''daily'') t
                         \<and> (\<exists>k\<in>set (keywords_of ''Coffee''). sublist k (transaction_desc t))) ?ts2)) = 5"
    by code_simp
  have d1: "''Coffee'' \<noteq> [] \<and> (\<forall>t\<in>set ?ts1. tx_description t = None)" by simp
  have c1: "(\<forall>t\<in>set ?ts1. tx_description t = None) \<and>
       (\<forall>c\<in>set ?cfgs. cfg_alert_type c = Some ''category_budget'' \<longrightarrow>
           cfg_alert_name c \<noteq> Some [] \<and> (\<forall>th. cfg_threshold_value c = Some th \<longrightarrow> 0 \<le> th))"
    by simp
  from mp[OF t2[THEN conjunct1] n2]
  have a: "calculate_category_spending ?env ?ts2 ''Coffee'' ''daily'' = (Inr 5, [])"
    unfolding s2 .
  from mp[OF t1[THEN conjunct2, THEN conjunct1] d1]
  have b: "calculate_category_spending ?env ?ts1 ''Coffee'' ''daily'' = (Inr 0, [])" .
  from mp[OF t1[THEN conjunct2, THEN conjunct2] c1]
  have c: "check_category_budget_alerts ?env ?ts1 ''testuser'' ?cfgs = (Inr [], [])" .
  from a b c show ?thesis by (intro conjI)
qed

section \<open>Properties of the preference store\<close>

lemma execute_query_table:
  "user_preferences (snd (execute_query db stmt)) = user_preferences db"
  "insert_accepted (snd (execute_query db stmt)) = insert_accepted db"
  by (cases stmt; simp add: execute_query_def)+

lemma save_user_preference_table:
  "user_preferences (snd (save_user_preference db username preference_type preference_key preference_value))
     = user_preferences db"
  by (simp add: save_user_preference_def execute_query_def split: list.splits)

lemma save_user_preference_existing:
  "fst (save_user_preference db username preference_type preference_key preference_value) =
     (if list_ex (pref_matches username preference_type preference_key) (user_preferences db)
        then Inl SQLAlchemyError
      else if bind_parameter preference_value
              \<and> insert_accepted db username preference_type preference_key preference_value
        then Inr (Some (next_pref_id db))
      else Inl SQLAlchemyError)"
  by (auto simp: save_user_preference_def execute_query_def list_ex_iff filter_empty_conv
      split: list.splits)

text \<open>
  Claim C8 at the input of the repository's own test, on an empty table.  The preferences
  are \<open>{"spending_category": {"coffee": {"enabled": True, "threshold": 50.0}, "food":
  {"enabled": True, "threshold": 200.0}}}\<close>.  The value of each upsert is a \<open>dict\<close>,
  which the driver cannot bind: \<open>save_user_preference\<close> raises both times it is applied
  with \<open>coffee\<close>, no record is left where the claim requires exactly one, and
  \<open>update_preferences\<close> returns \<open>False\<close>.

  Nor does a value that the database accepts leave a record.  With the text \<open>true\<close> as
  the value, two applications return the ids 1 and 2 and the table is still empty, since
  no statement is committed; \<open>update_preferences\<close> returns \<open>True\<close> for it.  No
  application of \<open>save_user_preference\<close> changes the table, whatever the database
  accepts.  Where a record for the user, type and key exists, the \<open>UPDATE\<close> branch
  raises and the record keeps its old value.  And an upsert that raises after one that
  returned an id makes \<open>update_preferences\<close> return \<open>False\<close>.
\<close>

theorem save_user_preference_leaves_no_record:
  "(let db0 = \<lparr> user_preferences = [], next_pref_id = 1, insert_accepted = accepted \<rparr>;
        coffee = JDict [(''enabled'', JBool True), (''threshold'', JNum 50)];
        food = JDict [(''enabled'', JBool True), (''threshold'', JNum 200)];
        first = save_user_preference db0 ''testuser'' ''spending_category'' ''coffee'' coffee;
        second = save_user_preference (snd first) ''testuser'' ''spending_category'' ''coffee'' coffee
    in fst first = Inl SQLAlchemyError
       \<and> fst second = Inl SQLAlchemyError
       \<and> filter (pref_matches ''testuser'' ''spending_category'' ''coffee'')
            (user_preferences (snd second)) = []
       \<and> fst (update_preferences db0 ''testuser''
                [(''spending_category'', JDict [(''coffee'', coffee), (''food'', food)])]) = False)
   \<and> (let db0 = \<lparr> user_preferences = [], next_pref_id = 1, insert_accepted = (\<lambda>u t k v. True) \<rparr>;
           first = save_user_preference db0 ''testuser'' ''theme'' ''default'' (JStr ''true'');
           second = save_user_preference (snd first) ''testuser'' ''theme'' ''default'' (JStr ''true'')
       in fst first = Inr (Some 1)
          \<and> fst second = Inr (Some 2)
          \<and> filter (pref_matches ''testuser'' ''theme'' ''default'') (user_preferences (snd second)) = []
          \<and> fst (update_preferences db0 ''testuser'' [(''theme'', JStr ''true'')]) = True
          \<and> user_preferences (snd (update_preferences db0 ''testuser'' [(''theme'', JStr ''true'')])) = []
          \<and> fst (update_preferences db0 ''testuser''
                   [(''theme'', JStr ''true''),
                    (''spending_category'',
                       JDict [(''coffee'', JDict [(''enabled'', JBool True), (''threshold'', JNum 50)])])])
               = False)
   \<and> (let db1 = \<lparr> user_preferences =
                      [\<lparr> pref_id = 7, pref_username = ''testuser'', pref_type = ''theme'',
                         pref_key = ''default'', pref_value = JStr ''false'' \<rparr>],
                    next_pref_id = 8, insert_accepted = accepted \<rparr>;
           again = save_user_preference db1 ''testuser'' ''theme'' ''default'' (JStr ''true'')
       in fst again = Inl SQLAlchemyError
          \<and> map pref_value (user_preferences (snd again)) = [JStr ''false''])
   \<and> user_preferences (snd (save_user_preference db username preference_type preference_key preference_value))
        = user_preferences db"
proof -
  have a: "let db0 = \<lparr> user_preferences = [], next_pref_id = 1, insert_accepted = accepted \<rparr>;
        coffee = JDict [(''enabled'', JBool True), (''threshold'', JNum 50)];
        food = JDict [(''enabled'', JBool True), (''threshold'', JNum 200)];
        first = save_user_preference db0 ''testuser'' ''spending_category'' ''coffee'' coffee;
        second = save_user_preference (snd first) ''testuser'' ''spending_category'' ''coffee'' coffee
    in fst first = Inl SQLAlchemyError
       \<and> fst second = Inl SQLAlchemyError
       \<and> filter (pref_matches ''testuser'' ''spending_category'' ''coffee'')
            (user_preferences (snd second)) = []
       \<and> fst (update_preferences db0 ''testuser''
                [(''spending_category'', JDict [(''coffee'', coffee), (''food'', food)])]) = False"
    by (simp add: Let_def save_user_preference_def execute_query_def bind_parameter_def
        update_preferences_def)
  have b: "let db0 = \<lparr> user_preferences = [], next_pref_id = 1, insert_accepted = (\<lambda>u t k v. True) \<rparr>;
           first = save_user_preference db0 ''testuser'' ''theme'' ''default'' (JStr ''true'');
           second = save_user_preference (snd first) ''testuser'' ''theme'' ''default'' (JStr ''true'')
       in fst first = Inr (Some 1)
          \<and> fst second = Inr (Some 2)
          \<and> filter (pref_matches ''testuser'' ''theme'' ''default'') (user_preferences (snd second)) = []
          \<and> fst (update_preferences db0 ''testuser'' [(''theme'', JStr ''true'')]) = True
          \<and> user_preferences (snd (update_preferences db0 ''testuser'' [(''theme'', JStr ''true'')])) = []
          \<and> fst (update_preferences db0 ''testuser''
                   [(''theme'', JStr ''true''),
                    (''spending_category'',
                       JDict [(''coffee'', JDict [(''enabled'', JBool True), (''threshold'', JNum 50)])])])
               = False"
    by (simp add: Let_def save_user_preference_def execute_query_def bind_parameter_def
        update_preferences_def id_truthy_def)
  have c: "let db1 = \<lparr> user_preferences =
                      [\<lparr> pref_id = 7, pref_username = ''testuser'', pref_type = ''theme'',
                         pref_key = ''default'', pref_value = JStr ''false'' \<rparr>],
                    next_pref_id = 8, insert_accepted = accepted \<rparr>;
           again = save_user_preference db1 ''testuser'' ''theme'' ''default'' (JStr ''true'')
       in fst again = Inl SQLAlchemyError
          \<and> map pref_value (user_preferences (snd again)) = [JStr ''false'']"
    by (simp add: Let_def save_user_preference_def execute_query_def pref_matches_def)
  from a b c save_user_preference_table show ?thesis by (intro conjI)
qed

end
